theory Spec2Isabelle
  imports Main "HOL-Library.Word" "HOL-Library.Sublist"
begin

unbundle bit_operations_syntax

section \<open>leafOS kernel entry: a shallow embedding of the UEFI bootstrap\<close>

text \<open>
  The development embeds the bootstrap translation unit of leafOS (the kernel's
  \<^verbatim>\<open>main\<close>, the serial diagnostic routines \<^verbatim>\<open>debug_putc\<close> and
  \<^verbatim>\<open>debug_puts\<close>, the runners \<^verbatim>\<open>_init\<close> and \<^verbatim>\<open>_fini\<close>) together with
  the parts of \<^verbatim>\<open>uefi.hpp\<close> they use. The build targets are x86_64 and aarch64
  only, so \<^verbatim>\<open>UINTN\<close> is \<^verbatim>\<open>uint64_t\<close> and \<^verbatim>\<open>INTN\<close> is \<^verbatim>\<open>int64_t\<close>.
\<close>

subsection \<open>Types and status codes of \<^verbatim>\<open>uefi.hpp\<close>\<close>

type_synonym byte = "8 word"
type_synonym UINT32 = "32 word"
type_synonym UINTN = "64 word"
type_synonym EFI_STATUS = UINTN
type_synonym EFI_HANDLE = "64 word"
type_synonym pointer = "64 word"

definition nullptr :: pointer where
  "nullptr = 0"

definition EFI_SUCCESS :: EFI_STATUS where
  "EFI_SUCCESS = 0"

definition EFI_LOAD_ERROR :: EFI_STATUS where
  "EFI_LOAD_ERROR = 1"

definition EFI_INVALID_PARAMETER :: EFI_STATUS where
  "EFI_INVALID_PARAMETER = 2"

definition EFI_UNSUPPORTED :: EFI_STATUS where
  "EFI_UNSUPPORTED = 3"

definition EFI_BAD_BUFFER_SIZE :: EFI_STATUS where
  "EFI_BAD_BUFFER_SIZE = 4"

definition EFI_BUFFER_TOO_SMALL :: EFI_STATUS where
  "EFI_BUFFER_TOO_SMALL = 5"

definition EFI_NOT_READY :: EFI_STATUS where
  "EFI_NOT_READY = 6"

definition EFI_DEVICE_ERROR :: EFI_STATUS where
  "EFI_DEVICE_ERROR = 7"

definition EFI_WRITE_PROTECTED :: EFI_STATUS where
  "EFI_WRITE_PROTECTED = 8"

definition EFI_OUT_OF_RESOURCES :: EFI_STATUS where
  "EFI_OUT_OF_RESOURCES = 9"

definition EFI_NOT_FOUND :: EFI_STATUS where
  "EFI_NOT_FOUND = 14"

definition EFI_ABORTED :: EFI_STATUS where
  "EFI_ABORTED = 21"

text \<open>The error codes the header defines, in the header's order.\<close>

definition header_error_codes :: "EFI_STATUS list" where
  "header_error_codes =
    [EFI_LOAD_ERROR, EFI_INVALID_PARAMETER, EFI_UNSUPPORTED, EFI_BAD_BUFFER_SIZE,
     EFI_BUFFER_TOO_SMALL, EFI_NOT_READY, EFI_DEVICE_ERROR, EFI_WRITE_PROTECTED,
     EFI_OUT_OF_RESOURCES, EFI_NOT_FOUND, EFI_ABORTED]"

text \<open>\<^verbatim>\<open>#define EFI_ERROR(Status) ((INTN)(Status) < 0)\<close>: the status read as a
  signed 64-bit integer is negative.\<close>

definition EFI_ERROR :: "EFI_STATUS \<Rightarrow> bool" where
  "EFI_ERROR Status \<longleftrightarrow> sint Status < 0"

text \<open>The four variables whose addresses \<^verbatim>\<open>main\<close> passes to the memory-map
  query; the firmware reads and writes them through the pointers.\<close>

record memory_map_vars =
  mapSize :: UINTN
  mapKey :: UINTN
  descriptorSize :: UINTN
  descriptorVersion :: UINT32

text \<open>The two entries of \<^verbatim>\<open>EFI_BOOT_SERVICES\<close> that \<^verbatim>\<open>main\<close> calls. They
  are function pointers supplied by the firmware, so they are parameters of the model:
  each takes the firmware's own state \<open>'fw\<close> and returns the next one. The
  memory-map query takes the in/out variables and the buffer pointer.\<close>

record 'fw EFI_BOOT_SERVICES =
  GetMemoryMap :: "memory_map_vars \<Rightarrow> pointer \<Rightarrow> 'fw \<Rightarrow> (EFI_STATUS \<times> memory_map_vars) \<times> 'fw"
  ExitBootServices :: "EFI_HANDLE \<Rightarrow> UINTN \<Rightarrow> 'fw \<Rightarrow> EFI_STATUS \<times> 'fw"

record 'fw EFI_SYSTEM_TABLE =
  BootServices :: "'fw EFI_BOOT_SERVICES"

subsection \<open>The string literals of the translation unit\<close>

text \<open>The source file is UTF-8 and most literals are Chinese; each literal is given
  as its bytes, without the terminating NUL (\<^verbatim>\<open>\n\<close> is the byte \<^verbatim>\<open>0x0A\<close>). The
  comment before a literal gives its line in the source and its length.\<close>

text \<open>Line 193, 43 bytes; in English: \<^verbatim>\<open>[memory] initialising the memory manager...\<close>.\<close>

definition msg_init_memory_begin :: "byte list" where
  "msg_init_memory_begin =
    [0x5B, 0xE5, 0x86, 0x85, 0xE5, 0xAD, 0x98, 0x5D, 0x20, 0xE6, 0xAD, 0xA3,
     0xE5, 0x9C, 0xA8, 0xE5, 0x88, 0x9D, 0xE5, 0xA7, 0x8B, 0xE5, 0x8C, 0x96,
     0xE5, 0x86, 0x85, 0xE5, 0xAD, 0x98, 0xE7, 0xAE, 0xA1, 0xE7, 0x90, 0x86,
     0xE5, 0x99, 0xA8, 0x2E, 0x2E, 0x2E, 0x0A]"

text \<open>Line 199, 40 bytes; in English: \<^verbatim>\<open>[memory] memory manager initialised\<close>.\<close>

definition msg_init_memory_done :: "byte list" where
  "msg_init_memory_done =
    [0x5B, 0xE5, 0x86, 0x85, 0xE5, 0xAD, 0x98, 0x5D, 0x20, 0xE5, 0x86, 0x85,
     0xE5, 0xAD, 0x98, 0xE7, 0xAE, 0xA1, 0xE7, 0x90, 0x86, 0xE5, 0x99, 0xA8,
     0xE5, 0x88, 0x9D, 0xE5, 0xA7, 0x8B, 0xE5, 0x8C, 0x96, 0xE5, 0xAE, 0x8C,
     0xE6, 0x88, 0x90, 0x0A]"

text \<open>Line 209, 40 bytes; in English: \<^verbatim>\<open>[devices] initialising the device drivers...\<close>.\<close>

definition msg_init_devices_begin :: "byte list" where
  "msg_init_devices_begin =
    [0x5B, 0xE8, 0xAE, 0xBE, 0xE5, 0xA4, 0x87, 0x5D, 0x20, 0xE6, 0xAD, 0xA3,
     0xE5, 0x9C, 0xA8, 0xE5, 0x88, 0x9D, 0xE5, 0xA7, 0x8B, 0xE5, 0x8C, 0x96,
     0xE8, 0xAE, 0xBE, 0xE5, 0xA4, 0x87, 0xE9, 0xA9, 0xB1, 0xE5, 0x8A, 0xA8,
     0x2E, 0x2E, 0x2E, 0x0A]"

text \<open>Line 213, 37 bytes; in English: \<^verbatim>\<open>[devices] device drivers initialised\<close>.\<close>

definition msg_init_devices_done :: "byte list" where
  "msg_init_devices_done =
    [0x5B, 0xE8, 0xAE, 0xBE, 0xE5, 0xA4, 0x87, 0x5D, 0x20, 0xE8, 0xAE, 0xBE,
     0xE5, 0xA4, 0x87, 0xE9, 0xA9, 0xB1, 0xE5, 0x8A, 0xA8, 0xE5, 0x88, 0x9D,
     0xE5, 0xA7, 0x8B, 0xE5, 0x8C, 0x96, 0xE5, 0xAE, 0x8C, 0xE6, 0x88, 0x90,
     0x0A]"

text \<open>Line 223, 46 bytes; in English: \<^verbatim>\<open>[file system] initialising the file system...\<close>.\<close>

definition msg_init_fs_begin :: "byte list" where
  "msg_init_fs_begin =
    [0x5B, 0xE6, 0x96, 0x87, 0xE4, 0xBB, 0xB6, 0xE7, 0xB3, 0xBB, 0xE7, 0xBB,
     0x9F, 0x5D, 0x20, 0xE6, 0xAD, 0xA3, 0xE5, 0x9C, 0xA8, 0xE5, 0x88, 0x9D,
     0xE5, 0xA7, 0x8B, 0xE5, 0x8C, 0x96, 0xE6, 0x96, 0x87, 0xE4, 0xBB, 0xB6,
     0xE7, 0xB3, 0xBB, 0xE7, 0xBB, 0x9F, 0x2E, 0x2E, 0x2E, 0x0A]"

text \<open>Line 228, 43 bytes; in English: \<^verbatim>\<open>[file system] file system initialised\<close>.\<close>

definition msg_init_fs_done :: "byte list" where
  "msg_init_fs_done =
    [0x5B, 0xE6, 0x96, 0x87, 0xE4, 0xBB, 0xB6, 0xE7, 0xB3, 0xBB, 0xE7, 0xBB,
     0x9F, 0x5D, 0x20, 0xE6, 0x96, 0x87, 0xE4, 0xBB, 0xB6, 0xE7, 0xB3, 0xBB,
     0xE7, 0xBB, 0x9F, 0xE5, 0x88, 0x9D, 0xE5, 0xA7, 0x8B, 0xE5, 0x8C, 0x96,
     0xE5, 0xAE, 0x8C, 0xE6, 0x88, 0x90, 0x0A]"

text \<open>Line 238, 40 bytes; in English: \<^verbatim>\<open>[graphics] initialising the graphical interface...\<close>.\<close>

definition msg_init_graphics_begin :: "byte list" where
  "msg_init_graphics_begin =
    [0x5B, 0xE5, 0x9B, 0xBE, 0xE5, 0xBD, 0xA2, 0x5D, 0x20, 0xE6, 0xAD, 0xA3,
     0xE5, 0x9C, 0xA8, 0xE5, 0x88, 0x9D, 0xE5, 0xA7, 0x8B, 0xE5, 0x8C, 0x96,
     0xE5, 0x9B, 0xBE, 0xE5, 0xBD, 0xA2, 0xE7, 0x95, 0x8C, 0xE9, 0x9D, 0xA2,
     0x2E, 0x2E, 0x2E, 0x0A]"

text \<open>Line 243, 37 bytes; in English: \<^verbatim>\<open>[graphics] graphical interface initialised\<close>.\<close>

definition msg_init_graphics_done :: "byte list" where
  "msg_init_graphics_done =
    [0x5B, 0xE5, 0x9B, 0xBE, 0xE5, 0xBD, 0xA2, 0x5D, 0x20, 0xE5, 0x9B, 0xBE,
     0xE5, 0xBD, 0xA2, 0xE7, 0x95, 0x8C, 0xE9, 0x9D, 0xA2, 0xE5, 0x88, 0x9D,
     0xE5, 0xA7, 0x8B, 0xE5, 0x8C, 0x96, 0xE5, 0xAE, 0x8C, 0xE6, 0x88, 0x90,
     0x0A]"

text \<open>Line 255, 40 bytes; in English: \<^verbatim>\<open>[hot services] initialising the hot services...\<close>.\<close>

definition msg_init_hot_begin :: "byte list" where
  "msg_init_hot_begin =
    [0x5B, 0xE7, 0x83, 0xAD, 0xE6, 0x9C, 0x8D, 0xE5, 0x8A, 0xA1, 0x5D, 0x20,
     0xE6, 0xAD, 0xA3, 0xE5, 0x9C, 0xA8, 0xE5, 0x88, 0x9D, 0xE5, 0xA7, 0x8B,
     0xE5, 0x8C, 0x96, 0xE7, 0x83, 0xAD, 0xE6, 0x9C, 0x8D, 0xE5, 0x8A, 0xA1,
     0x2E, 0x2E, 0x2E, 0x0A]"

text \<open>Line 261, 37 bytes; in English: \<^verbatim>\<open>[hot services] hot services initialised\<close>.\<close>

definition msg_init_hot_done :: "byte list" where
  "msg_init_hot_done =
    [0x5B, 0xE7, 0x83, 0xAD, 0xE6, 0x9C, 0x8D, 0xE5, 0x8A, 0xA1, 0x5D, 0x20,
     0xE7, 0x83, 0xAD, 0xE6, 0x9C, 0x8D, 0xE5, 0x8A, 0xA1, 0xE5, 0x88, 0x9D,
     0xE5, 0xA7, 0x8B, 0xE5, 0x8C, 0x96, 0xE5, 0xAE, 0x8C, 0xE6, 0x88, 0x90,
     0x0A]"

text \<open>Line 291, 43 bytes; in English: \<^verbatim>\<open>two line feeds and a rule of 40 equals signs\<close>.\<close>

definition msg_boot_rule :: "byte list" where
  "msg_boot_rule =
    [0x0A, 0x0A, 0x3D, 0x3D, 0x3D, 0x3D, 0x3D, 0x3D, 0x3D, 0x3D, 0x3D, 0x3D,
     0x3D, 0x3D, 0x3D, 0x3D, 0x3D, 0x3D, 0x3D, 0x3D, 0x3D, 0x3D, 0x3D, 0x3D,
     0x3D, 0x3D, 0x3D, 0x3D, 0x3D, 0x3D, 0x3D, 0x3D, 0x3D, 0x3D, 0x3D, 0x3D,
     0x3D, 0x3D, 0x3D, 0x3D, 0x3D, 0x3D, 0x0A]"

text \<open>Line 292, 31 bytes; in English: \<^verbatim>\<open>    leafOS kernel - UEFI boot\<close>.\<close>

definition msg_boot_title :: "byte list" where
  "msg_boot_title =
    [0x20, 0x20, 0x20, 0x20, 0x6C, 0x65, 0x61, 0x66, 0x4F, 0x53, 0x20, 0xE5,
     0x86, 0x85, 0xE6, 0xA0, 0xB8, 0x20, 0x2D, 0x20, 0x55, 0x45, 0x46, 0x49,
     0xE5, 0x90, 0xAF, 0xE5, 0x8A, 0xA8, 0x0A]"

text \<open>Line 293, 42 bytes; in English: \<^verbatim>\<open>a rule of 40 equals signs and two line feeds; the same literal stands at line 369\<close>.\<close>

definition msg_rule_end :: "byte list" where
  "msg_rule_end =
    [0x3D, 0x3D, 0x3D, 0x3D, 0x3D, 0x3D, 0x3D, 0x3D, 0x3D, 0x3D, 0x3D, 0x3D,
     0x3D, 0x3D, 0x3D, 0x3D, 0x3D, 0x3D, 0x3D, 0x3D, 0x3D, 0x3D, 0x3D, 0x3D,
     0x3D, 0x3D, 0x3D, 0x3D, 0x3D, 0x3D, 0x3D, 0x3D, 0x3D, 0x3D, 0x3D, 0x3D,
     0x3D, 0x3D, 0x3D, 0x3D, 0x0A, 0x0A]"

text \<open>Line 300, 41 bytes; in English: \<^verbatim>\<open>[kernel] starting to initialise the kernel modules...\<close>.\<close>

definition msg_modules_begin :: "byte list" where
  "msg_modules_begin =
    [0x5B, 0xE5, 0x86, 0x85, 0xE6, 0xA0, 0xB8, 0x5D, 0x20, 0xE5, 0xBC, 0x80,
     0xE5, 0xA7, 0x8B, 0xE5, 0x88, 0x9D, 0xE5, 0xA7, 0x8B, 0xE5, 0x8C, 0x96,
     0xE5, 0x86, 0x85, 0xE6, 0xA0, 0xB8, 0xE6, 0xA8, 0xA1, 0xE5, 0x9D, 0x97,
     0x2E, 0x2E, 0x2E, 0x0A, 0x0A]"

text \<open>Line 304, 43 bytes; in English: \<^verbatim>\<open>[error] memory manager initialisation failed!\<close>.\<close>

definition msg_err_memory :: "byte list" where
  "msg_err_memory =
    [0x5B, 0xE9, 0x94, 0x99, 0xE8, 0xAF, 0xAF, 0x5D, 0x20, 0xE5, 0x86, 0x85,
     0xE5, 0xAD, 0x98, 0xE7, 0xAE, 0xA1, 0xE7, 0x90, 0x86, 0xE5, 0x99, 0xA8,
     0xE5, 0x88, 0x9D, 0xE5, 0xA7, 0x8B, 0xE5, 0x8C, 0x96, 0xE5, 0xA4, 0xB1,
     0xE8, 0xB4, 0xA5, 0xEF, 0xBC, 0x81, 0x0A]"

text \<open>Line 310, 61 bytes; in English: \<^verbatim>\<open>[warning] some device drivers failed to initialise, continuing to boot...\<close>.\<close>

definition msg_warn_devices :: "byte list" where
  "msg_warn_devices =
    [0x5B, 0xE8, 0xAD, 0xA6, 0xE5, 0x91, 0x8A, 0x5D, 0x20, 0xE9, 0x83, 0xA8,
     0xE5, 0x88, 0x86, 0xE8, 0xAE, 0xBE, 0xE5, 0xA4, 0x87, 0xE9, 0xA9, 0xB1,
     0xE5, 0x8A, 0xA8, 0xE5, 0x88, 0x9D, 0xE5, 0xA7, 0x8B, 0xE5, 0x8C, 0x96,
     0xE5, 0xA4, 0xB1, 0xE8, 0xB4, 0xA5, 0xEF, 0xBC, 0x8C, 0xE7, 0xBB, 0xA7,
     0xE7, 0xBB, 0xAD, 0xE5, 0x90, 0xAF, 0xE5, 0x8A, 0xA8, 0x2E, 0x2E, 0x2E,
     0x0A]"

text \<open>Line 315, 55 bytes; in English: \<^verbatim>\<open>[warning] file system initialisation failed, continuing to boot...\<close>.\<close>

definition msg_warn_file_system :: "byte list" where
  "msg_warn_file_system =
    [0x5B, 0xE8, 0xAD, 0xA6, 0xE5, 0x91, 0x8A, 0x5D, 0x20, 0xE6, 0x96, 0x87,
     0xE4, 0xBB, 0xB6, 0xE7, 0xB3, 0xBB, 0xE7, 0xBB, 0x9F, 0xE5, 0x88, 0x9D,
     0xE5, 0xA7, 0x8B, 0xE5, 0x8C, 0x96, 0xE5, 0xA4, 0xB1, 0xE8, 0xB4, 0xA5,
     0xEF, 0xBC, 0x8C, 0xE7, 0xBB, 0xA7, 0xE7, 0xBB, 0xAD, 0xE5, 0x90, 0xAF,
     0xE5, 0x8A, 0xA8, 0x2E, 0x2E, 0x2E, 0x0A]"

text \<open>Line 320, 55 bytes; in English: \<^verbatim>\<open>[warning] graphical interface initialisation failed, continuing to boot...\<close>.\<close>

definition msg_warn_graphics :: "byte list" where
  "msg_warn_graphics =
    [0x5B, 0xE8, 0xAD, 0xA6, 0xE5, 0x91, 0x8A, 0x5D, 0x20, 0xE5, 0x9B, 0xBE,
     0xE5, 0xBD, 0xA2, 0xE7, 0x95, 0x8C, 0xE9, 0x9D, 0xA2, 0xE5, 0x88, 0x9D,
     0xE5, 0xA7, 0x8B, 0xE5, 0x8C, 0x96, 0xE5, 0xA4, 0xB1, 0xE8, 0xB4, 0xA5,
     0xEF, 0xBC, 0x8C, 0xE7, 0xBB, 0xA7, 0xE7, 0xBB, 0xAD, 0xE5, 0x90, 0xAF,
     0xE5, 0x8A, 0xA8, 0x2E, 0x2E, 0x2E, 0x0A]"

text \<open>Line 325, 37 bytes; in English: \<^verbatim>\<open>[error] hot services initialisation failed!\<close>.\<close>

definition msg_err_hot_services :: "byte list" where
  "msg_err_hot_services =
    [0x5B, 0xE9, 0x94, 0x99, 0xE8, 0xAF, 0xAF, 0x5D, 0x20, 0xE7, 0x83, 0xAD,
     0xE6, 0x9C, 0x8D, 0xE5, 0x8A, 0xA1, 0xE5, 0x88, 0x9D, 0xE5, 0xA7, 0x8B,
     0xE5, 0x8C, 0x96, 0xE5, 0xA4, 0xB1, 0xE8, 0xB4, 0xA5, 0xEF, 0xBC, 0x81,
     0x0A]"

text \<open>Line 333, 42 bytes; in English: \<^verbatim>\<open>[kernel] exiting the UEFI boot services...\<close>.\<close>

definition msg_exiting :: "byte list" where
  "msg_exiting =
    [0x0A, 0x5B, 0xE5, 0x86, 0x85, 0xE6, 0xA0, 0xB8, 0x5D, 0x20, 0xE6, 0xAD,
     0xA3, 0xE5, 0x9C, 0xA8, 0xE9, 0x80, 0x80, 0xE5, 0x87, 0xBA, 0x55, 0x45,
     0x46, 0x49, 0xE5, 0x90, 0xAF, 0xE5, 0x8A, 0xA8, 0xE6, 0x9C, 0x8D, 0xE5,
     0x8A, 0xA1, 0x2E, 0x2E, 0x2E, 0x0A]"

text \<open>Line 346, 40 bytes; in English: \<^verbatim>\<open>[error] cannot get the memory map size\<close>.\<close>

definition msg_err_map_size :: "byte list" where
  "msg_err_map_size =
    [0x5B, 0xE9, 0x94, 0x99, 0xE8, 0xAF, 0xAF, 0x5D, 0x20, 0xE6, 0x97, 0xA0,
     0xE6, 0xB3, 0x95, 0xE8, 0x8E, 0xB7, 0xE5, 0x8F, 0x96, 0xE5, 0x86, 0x85,
     0xE5, 0xAD, 0x98, 0xE6, 0x98, 0xA0, 0xE5, 0xB0, 0x84, 0xE5, 0xA4, 0xA7,
     0xE5, 0xB0, 0x8F, 0x0A]"

text \<open>Line 356, 34 bytes; in English: \<^verbatim>\<open>[error] cannot exit the boot services\<close>.\<close>

definition msg_err_exit :: "byte list" where
  "msg_err_exit =
    [0x5B, 0xE9, 0x94, 0x99, 0xE8, 0xAF, 0xAF, 0x5D, 0x20, 0xE6, 0x97, 0xA0,
     0xE6, 0xB3, 0x95, 0xE9, 0x80, 0x80, 0xE5, 0x87, 0xBA, 0xE5, 0x90, 0xAF,
     0xE5, 0x8A, 0xA8, 0xE6, 0x9C, 0x8D, 0xE5, 0x8A, 0xA1, 0x0A]"

text \<open>Line 360, 41 bytes; in English: \<^verbatim>\<open>[kernel] left the UEFI boot services successfully\<close>.\<close>

definition msg_exited :: "byte list" where
  "msg_exited =
    [0x5B, 0xE5, 0x86, 0x85, 0xE6, 0xA0, 0xB8, 0x5D, 0x20, 0xE5, 0xB7, 0xB2,
     0xE6, 0x88, 0x90, 0xE5, 0x8A, 0x9F, 0xE9, 0x80, 0x80, 0xE5, 0x87, 0xBA,
     0x55, 0x45, 0x46, 0x49, 0xE5, 0x90, 0xAF, 0xE5, 0x8A, 0xA8, 0xE6, 0x9C,
     0x8D, 0xE5, 0x8A, 0xA1, 0x0A]"

text \<open>Line 366, 42 bytes; in English: \<^verbatim>\<open>a line feed and a rule of 40 equals signs\<close>.\<close>

definition msg_ready_rule :: "byte list" where
  "msg_ready_rule =
    [0x0A, 0x3D, 0x3D, 0x3D, 0x3D, 0x3D, 0x3D, 0x3D, 0x3D, 0x3D, 0x3D, 0x3D,
     0x3D, 0x3D, 0x3D, 0x3D, 0x3D, 0x3D, 0x3D, 0x3D, 0x3D, 0x3D, 0x3D, 0x3D,
     0x3D, 0x3D, 0x3D, 0x3D, 0x3D, 0x3D, 0x3D, 0x3D, 0x3D, 0x3D, 0x3D, 0x3D,
     0x3D, 0x3D, 0x3D, 0x3D, 0x3D, 0x0A]"

text \<open>Line 367, 33 bytes; in English: \<^verbatim>\<open>    leafOS kernel boot complete!\<close>.\<close>

definition msg_ready_title :: "byte list" where
  "msg_ready_title =
    [0x20, 0x20, 0x20, 0x20, 0x6C, 0x65, 0x61, 0x66, 0x4F, 0x53, 0x20, 0xE5,
     0x86, 0x85, 0xE6, 0xA0, 0xB8, 0xE5, 0x90, 0xAF, 0xE5, 0x8A, 0xA8, 0xE5,
     0xAE, 0x8C, 0xE6, 0x88, 0x90, 0xEF, 0xBC, 0x81, 0x0A]"

text \<open>Line 368, 35 bytes; in English: \<^verbatim>\<open>    entering the kernel main loop...\<close>.\<close>

definition msg_ready_loop :: "byte list" where
  "msg_ready_loop =
    [0x20, 0x20, 0x20, 0x20, 0xE6, 0xAD, 0xA3, 0xE5, 0x9C, 0xA8, 0xE8, 0xBF,
     0x9B, 0xE5, 0x85, 0xA5, 0xE5, 0x86, 0x85, 0xE6, 0xA0, 0xB8, 0xE4, 0xB8,
     0xBB, 0xE5, 0xBE, 0xAA, 0xE7, 0x8E, 0xAF, 0x2E, 0x2E, 0x2E, 0x0A]"

text \<open>The bracketed tags that open the error lines and the warning lines (\<^verbatim>\<open>[error]\<close>,
  \<^verbatim>\<open>[warning]\<close>), as they stand at lines 304 and 310.\<close>

definition error_tag :: "byte list" where
  "error_tag =
    [0x5B, 0xE9, 0x94, 0x99, 0xE8, 0xAF, 0xAF, 0x5D]"

definition warning_tag :: "byte list" where
  "warning_tag =
    [0x5B, 0xE8, 0xAD, 0xA6, 0xE5, 0x91, 0x8A, 0x5D]"

text \<open>The names of the modules as the messages write them: memory manager, device
  drivers, file system, graphical interface, hot services (lines 193, 209, 223, 238, 255).\<close>

definition name_memory_manager :: "byte list" where
  "name_memory_manager =
    [0xE5, 0x86, 0x85, 0xE5, 0xAD, 0x98, 0xE7, 0xAE, 0xA1, 0xE7, 0x90, 0x86,
     0xE5, 0x99, 0xA8]"

definition name_device_drivers :: "byte list" where
  "name_device_drivers =
    [0xE8, 0xAE, 0xBE, 0xE5, 0xA4, 0x87, 0xE9, 0xA9, 0xB1, 0xE5, 0x8A, 0xA8]"

definition name_file_system :: "byte list" where
  "name_file_system =
    [0xE6, 0x96, 0x87, 0xE4, 0xBB, 0xB6, 0xE7, 0xB3, 0xBB, 0xE7, 0xBB, 0x9F]"

definition name_graphics :: "byte list" where
  "name_graphics =
    [0xE5, 0x9B, 0xBE, 0xE5, 0xBD, 0xA2, 0xE7, 0x95, 0x8C, 0xE9, 0x9D, 0xA2]"

definition name_hot_services :: "byte list" where
  "name_hot_services =
    [0xE7, 0x83, 0xAD, 0xE6, 0x9C, 0x8D, 0xE5, 0x8A, 0xA1]"

subsection \<open>Observable events\<close>

text \<open>The modules the sequencer brings up, in the source's order.\<close>

datatype module = Memory_manager | Device_drivers | File_system | Graphics | Hot_services

text \<open>What a run of \<^verbatim>\<open>main\<close> does that can be seen from outside, in the order
  it happens: a string or a character handed to the diagnostic channel by \<^verbatim>\<open>main\<close>
  itself, the call of a module's initializer (with the strings the initializer handed
  to the channel and the boolean it returned), and the two firmware calls with their
  arguments and results. \<open>Debug_puts s\<close> stands for the call of \<^verbatim>\<open>debug_puts\<close> on
  the literal \<open>s\<close>, and \<open>Debug_putc c\<close> for the call of \<^verbatim>\<open>debug_putc\<close>; what
  such a call does at the serial port is modelled on its own further down. In a run
  of \<^verbatim>\<open>main\<close> every such call is taken to return, that is, the port raises its
  transmit flag whenever the routine waits for it.\<close>

datatype event =
    Debug_puts "byte list"
  | Debug_putc byte
  | Init_call module "byte list list" bool
  | Call_GetMemoryMap memory_map_vars pointer EFI_STATUS memory_map_vars
  | Call_ExitBootServices EFI_HANDLE UINTN EFI_STATUS

subsection \<open>Module initializers\<close>

text \<open>An initializer is a zero-argument routine returning \<^verbatim>\<open>bool\<close>. It is given
  by the strings it passes to \<^verbatim>\<open>debug_puts\<close> and by the value it returns. The five
  initializers of the source print two lines each and return \<^verbatim>\<open>true\<close>.\<close>

type_synonym initializer = "byte list list \<times> bool"

definition init_memory_manager :: initializer where
  "init_memory_manager = ([msg_init_memory_begin, msg_init_memory_done], True)"

definition init_device_drivers :: initializer where
  "init_device_drivers = ([msg_init_devices_begin, msg_init_devices_done], True)"

definition init_file_system :: initializer where
  "init_file_system = ([msg_init_fs_begin, msg_init_fs_done], True)"

definition init_graphics :: initializer where
  "init_graphics = ([msg_init_graphics_begin, msg_init_graphics_done], True)"

definition init_hot_services :: initializer where
  "init_hot_services = ([msg_init_hot_begin, msg_init_hot_done], True)"

text \<open>The initializers as linked into the kernel.\<close>

fun leafos_initializers :: "module \<Rightarrow> initializer" where
  "leafos_initializers Memory_manager = init_memory_manager"
| "leafos_initializers Device_drivers = init_device_drivers"
| "leafos_initializers File_system = init_file_system"
| "leafos_initializers Graphics = init_graphics"
| "leafos_initializers Hot_services = init_hot_services"

text \<open>Calling the initializer of module \<open>m\<close>: the call is recorded and its result
  returned. \<^verbatim>\<open>main\<close> below takes the initializers as a parameter, so that it can be
  run with initializers that fail; the kernel itself is \<open>main leafos_initializers\<close>.\<close>

definition call_init :: "(module \<Rightarrow> initializer) \<Rightarrow> module \<Rightarrow> event list \<Rightarrow> bool \<times> event list" where
  "call_init inits m t = (snd (inits m), t @ [Init_call m (fst (inits m)) (snd (inits m))])"

subsection \<open>The kernel's \<^verbatim>\<open>main\<close>\<close>

text \<open>The steady-state loop \<^verbatim>\<open>while (true) { ...; debug_putc('.'); }\<close> has no
  exit. It is run for a given number of iterations (the fuel); each iteration spins
  through the empty delay loop, which leaves no trace, and emits one heartbeat
  character. The function returns the trace so far and never a status: the
  \<^verbatim>\<open>return EFI_SUCCESS\<close> after the loop is not reachable.\<close>

fun steady_state_loop :: "nat \<Rightarrow> event list \<Rightarrow> event list" where
  "steady_state_loop 0 t = t"
| "steady_state_loop (Suc n) t = steady_state_loop n (t @ [Debug_putc 0x2E])"

text \<open>\<^verbatim>\<open>main(SystemTable, ImageHandle)\<close>. The result is the status returned to the
  firmware loader (\<open>None\<close> when the routine is still in its steady-state loop after
  \<open>fuel\<close> iterations) and the trace of events. \<open>fw\<close> is the firmware's state at
  entry.\<close>

definition main :: "(module \<Rightarrow> initializer) \<Rightarrow> 'fw EFI_SYSTEM_TABLE \<Rightarrow> EFI_HANDLE \<Rightarrow> 'fw \<Rightarrow> nat
    \<Rightarrow> EFI_STATUS option \<times> event list" where
  "main inits SystemTable ImageHandle fw fuel =
    (let gBootServices = BootServices SystemTable;
         t = [Debug_puts msg_boot_rule, Debug_puts msg_boot_title, Debug_puts msg_rule_end];
         t = t @ [Debug_puts msg_modules_begin];
         (ok, t) = call_init inits Memory_manager t
     in if \<not> ok then (Some EFI_OUT_OF_RESOURCES, t @ [Debug_puts msg_err_memory])
     else
     let (ok, t) = call_init inits Device_drivers t;
         t = (if \<not> ok then t @ [Debug_puts msg_warn_devices] else t);
         (ok, t) = call_init inits File_system t;
         t = (if \<not> ok then t @ [Debug_puts msg_warn_file_system] else t);
         (ok, t) = call_init inits Graphics t;
         t = (if \<not> ok then t @ [Debug_puts msg_warn_graphics] else t);
         (ok, t) = call_init inits Hot_services t
     in if \<not> ok then (Some EFI_DEVICE_ERROR, t @ [Debug_puts msg_err_hot_services])
     else
     let t = t @ [Debug_puts msg_exiting];
         vars = \<lparr>mapSize = 0, mapKey = 0, descriptorSize = 0, descriptorVersion = 0\<rparr>;
         ((status, vars'), fw) = GetMemoryMap gBootServices vars nullptr fw;
         t = t @ [Call_GetMemoryMap vars nullptr status vars']
     in if status \<noteq> EFI_BUFFER_TOO_SMALL then (Some status, t @ [Debug_puts msg_err_map_size])
     else
     let (status, fw) = ExitBootServices gBootServices ImageHandle (mapKey vars') fw;
         t = t @ [Call_ExitBootServices ImageHandle (mapKey vars') status]
     in if EFI_ERROR status then (Some status, t @ [Debug_puts msg_err_exit])
     else
     let t = t @ [Debug_puts msg_exited];
         t = t @ [Debug_puts msg_ready_rule, Debug_puts msg_ready_title,
                  Debug_puts msg_ready_loop, Debug_puts msg_rule_end]
     in (None, steady_state_loop fuel t))"

text \<open>Names for what the firmware answers to the two calls \<^verbatim>\<open>main\<close> makes: the
  variables as \<^verbatim>\<open>main\<close> initialises them, the status and the variables after the
  size probe, and the status of the exit call that follows it.\<close>

definition zero_vars :: memory_map_vars where
  "zero_vars = \<lparr>mapSize = 0, mapKey = 0, descriptorSize = 0, descriptorVersion = 0\<rparr>"

definition probe_status :: "'fw EFI_SYSTEM_TABLE \<Rightarrow> 'fw \<Rightarrow> EFI_STATUS" where
  "probe_status st fw = fst (fst (GetMemoryMap (BootServices st) zero_vars nullptr fw))"

definition probe_vars :: "'fw EFI_SYSTEM_TABLE \<Rightarrow> 'fw \<Rightarrow> memory_map_vars" where
  "probe_vars st fw = snd (fst (GetMemoryMap (BootServices st) zero_vars nullptr fw))"

definition exit_status :: "'fw EFI_SYSTEM_TABLE \<Rightarrow> EFI_HANDLE \<Rightarrow> 'fw \<Rightarrow> EFI_STATUS" where
  "exit_status st h fw =
     fst (ExitBootServices (BootServices st) h (mapKey (probe_vars st fw))
           (snd (GetMemoryMap (BootServices st) zero_vars nullptr fw)))"

subsection \<open>Reading a trace\<close>

text \<open>The modules whose initializer was called, in call order.\<close>

fun invoked :: "event list \<Rightarrow> module list" where
  "invoked [] = []"
| "invoked (Init_call m outs r # t) = m # invoked t"
| "invoked (e # t) = invoked t"

text \<open>The strings \<^verbatim>\<open>main\<close> itself passed to \<^verbatim>\<open>debug_puts\<close>, in order.\<close>

fun own_diagnostics :: "event list \<Rightarrow> byte list list" where
  "own_diagnostics [] = []"
| "own_diagnostics (Debug_puts s # t) = s # own_diagnostics t"
| "own_diagnostics (e # t) = own_diagnostics t"

text \<open>Everything handed to the diagnostic channel, by \<^verbatim>\<open>main\<close> and by the
  initializers it called, in order.\<close>

fun channel :: "event list \<Rightarrow> byte list list" where
  "channel [] = []"
| "channel (Debug_puts s # t) = s # channel t"
| "channel (Debug_putc c # t) = [c] # channel t"
| "channel (Init_call m outs r # t) = outs @ channel t"
| "channel (e # t) = channel t"

text \<open>The firmware calls of a trace, and the heartbeats of the steady-state loop.\<close>

fun firmware_calls :: "event list \<Rightarrow> event list" where
  "firmware_calls [] = []"
| "firmware_calls (Call_GetMemoryMap vars buf st vars' # t) =
     Call_GetMemoryMap vars buf st vars' # firmware_calls t"
| "firmware_calls (Call_ExitBootServices h k st # t) =
     Call_ExitBootServices h k st # firmware_calls t"
| "firmware_calls (e # t) = firmware_calls t"

text \<open>The exit calls of a trace alone.\<close>

fun exit_calls :: "event list \<Rightarrow> event list" where
  "exit_calls [] = []"
| "exit_calls (Call_ExitBootServices h k st # t) =
     Call_ExitBootServices h k st # exit_calls t"
| "exit_calls (e # t) = exit_calls t"

fun heartbeats :: "event list \<Rightarrow> nat" where
  "heartbeats [] = 0"
| "heartbeats (Debug_putc c # t) = Suc (heartbeats t)"
| "heartbeats (e # t) = heartbeats t"

text \<open>A diagnostic is a fatal-module message when it carries the bracketed error tag
  of the source's error lines, and a warning when it carries the warning tag.\<close>

definition is_fatal_diagnostic :: "byte list \<Rightarrow> bool" where
  "is_fatal_diagnostic s \<longleftrightarrow> prefix error_tag s"

definition is_warning_diagnostic :: "byte list \<Rightarrow> bool" where
  "is_warning_diagnostic s \<longleftrightarrow> prefix warning_tag s"

text \<open>The warning \<^verbatim>\<open>main\<close> prints for a recoverable module, the module's name as
  the source's messages write it, and the module that follows in the sequence.\<close>

fun warning_of :: "module \<Rightarrow> byte list" where
  "warning_of Device_drivers = msg_warn_devices"
| "warning_of File_system = msg_warn_file_system"
| "warning_of Graphics = msg_warn_graphics"
| "warning_of m = []"

fun name_of_module :: "module \<Rightarrow> byte list" where
  "name_of_module Memory_manager = name_memory_manager"
| "name_of_module Device_drivers = name_device_drivers"
| "name_of_module File_system = name_file_system"
| "name_of_module Graphics = name_graphics"
| "name_of_module Hot_services = name_hot_services"

fun next_module :: "module \<Rightarrow> module" where
  "next_module Memory_manager = Device_drivers"
| "next_module Device_drivers = File_system"
| "next_module File_system = Graphics"
| "next_module Graphics = Hot_services"
| "next_module Hot_services = Hot_services"

definition recoverable :: "module \<Rightarrow> bool" where
  "recoverable m \<longleftrightarrow> m = Device_drivers \<or> m = File_system \<or> m = Graphics"

subsection \<open>The serial diagnostic channel\<close>

text \<open>\<^verbatim>\<open>debug_putc\<close> reads and writes the byte at the fixed address
  \<^verbatim>\<open>0x3F8\<close> through a volatile pointer. The port is modelled by the values its
  successive reads return (the transmit status signal; after the listed values the
  flag is never raised again) and by the log of the reads and writes performed.\<close>

datatype port_op = Port_read byte | Port_write byte

record uart =
  tx_status :: "byte list"
  port_ops :: "port_op list"

text \<open>A routine of the channel either returns, or spins in its busy-wait for ever,
  or runs off the end of the bytes given for a string without meeting a NUL.\<close>

datatype fault = Spins_forever | Unterminated

text \<open>\<^verbatim>\<open>while (!(*uart & 0x20));\<close>: read the port until bit 5 is set.\<close>

fun wait_tx_empty :: "byte list \<Rightarrow> port_op list \<Rightarrow> fault + byte list \<times> port_op list" where
  "wait_tx_empty [] ops = Inl Spins_forever"
| "wait_tx_empty (v # vs) ops =
     (if v AND 0x20 \<noteq> 0 then Inr (vs, ops @ [Port_read v])
      else wait_tx_empty vs (ops @ [Port_read v]))"

text \<open>\<^verbatim>\<open>debug_putc(c)\<close>: wait, write the character, and for a line feed call
  itself with a carriage return.\<close>

function debug_putc :: "byte \<Rightarrow> uart \<Rightarrow> fault + uart" where
  "debug_putc c u =
     (case wait_tx_empty (tx_status u) (port_ops u) of
        Inl f \<Rightarrow> Inl f
      | Inr (vs, ops) \<Rightarrow>
          let u' = \<lparr>tx_status = vs, port_ops = ops @ [Port_write c]\<rparr>
          in if c = 0x0A then debug_putc 0x0D u' else Inr u')"
  by pat_completeness auto
termination
  by (relation "measure (\<lambda>(c, u). if c = 0x0A then 1 else 0)") auto

text \<open>\<^verbatim>\<open>debug_puts(str)\<close>: \<^verbatim>\<open>while (*str) debug_putc(*str++);\<close>. The argument
  is the memory from the address \<^verbatim>\<open>str\<close> on.\<close>

fun debug_puts :: "byte list \<Rightarrow> uart \<Rightarrow> fault + uart" where
  "debug_puts [] u = Inl Unterminated"
| "debug_puts (c # str) u =
     (if c = 0 then Inr u
      else case debug_putc c u of Inl f \<Rightarrow> Inl f | Inr u' \<Rightarrow> debug_puts str u')"

text \<open>The bytes written to the port, in order.\<close>

fun written :: "port_op list \<Rightarrow> byte list" where
  "written [] = []"
| "written (Port_write c # ops) = c # written ops"
| "written (Port_read v # ops) = written ops"

text \<open>Every write of the log comes right after a read that saw bit 5 set.\<close>

fun writes_after_ready :: "port_op list \<Rightarrow> bool" where
  "writes_after_ready [] = True"
| "writes_after_ready [Port_read v] = True"
| "writes_after_ready (Port_read v # Port_write c # ops) =
     (v AND 0x20 \<noteq> 0 \<and> writes_after_ready ops)"
| "writes_after_ready (Port_read v # Port_read v' # ops) =
     writes_after_ready (Port_read v' # ops)"
| "writes_after_ready (Port_write c # ops) = False"

text \<open>What the specification asks the channel to emit for a string: its characters
  in order, a carriage return after every line feed.\<close>

fun emitted :: "byte list \<Rightarrow> byte list" where
  "emitted [] = []"
| "emitted (c # s) = (if c = 0x0A then [0x0A, 0x0D] else [c]) @ emitted s"

text \<open>How many of the listed status values have the transmit-empty flag set.\<close>

definition ready_count :: "byte list \<Rightarrow> nat" where
  "ready_count vs = length (filter (\<lambda>v. v AND 0x20 \<noteq> 0) vs)"

subsection \<open>Static constructors and destructors\<close>

text \<open>\<^verbatim>\<open>_init\<close> (here \<open>cxx_init\<close>: a name cannot begin with an underscore)
  walks the array between the linker symbols \<^verbatim>\<open>__init_array_start\<close> and
  \<^verbatim>\<open>__init_array_end\<close>, given as a list. An entry is a function pointer: \<open>None\<close> is a
  null entry, \<open>Some f\<close> a routine acting on the machine state \<open>'w\<close>. The loop
  variable is the index of the entry the pointer \<^verbatim>\<open>ctor\<close> stands at. Beside the
  state, the loop records the index of every entry it calls.\<close>

function init_loop :: "('w \<Rightarrow> 'w) option list \<Rightarrow> nat \<Rightarrow> 'w \<times> nat list \<Rightarrow> 'w \<times> nat list" where
  "init_loop arr ctor (w, calls) =
     (if ctor < length arr then
        (case arr ! ctor of
           Some f \<Rightarrow> init_loop arr (Suc ctor) (f w, calls @ [ctor])
         | None \<Rightarrow> init_loop arr (Suc ctor) (w, calls))
      else (w, calls))"
  by pat_completeness auto
termination
  by (relation "measure (\<lambda>(arr, ctor, s). length arr - ctor)") auto

definition cxx_init :: "('w \<Rightarrow> 'w) option list \<Rightarrow> 'w \<Rightarrow> 'w \<times> nat list" where
  "cxx_init init_array w = init_loop init_array 0 (w, [])"

text \<open>\<^verbatim>\<open>_fini\<close> (here \<open>cxx_fini\<close>) is the same loop over the array between
  \<^verbatim>\<open>__fini_array_start\<close> and \<^verbatim>\<open>__fini_array_end\<close>.\<close>

function fini_loop :: "('w \<Rightarrow> 'w) option list \<Rightarrow> nat \<Rightarrow> 'w \<times> nat list \<Rightarrow> 'w \<times> nat list" where
  "fini_loop arr dtor (w, calls) =
     (if dtor < length arr then
        (case arr ! dtor of
           Some f \<Rightarrow> fini_loop arr (Suc dtor) (f w, calls @ [dtor])
         | None \<Rightarrow> fini_loop arr (Suc dtor) (w, calls))
      else (w, calls))"
  by pat_completeness auto
termination
  by (relation "measure (\<lambda>(arr, dtor, s). length arr - dtor)") auto

definition cxx_fini :: "('w \<Rightarrow> 'w) option list \<Rightarrow> 'w \<Rightarrow> 'w \<times> nat list" where
  "cxx_fini fini_array w = fini_loop fini_array 0 (w, [])"

text \<open>The non-null entries of an array, in array order.\<close>

fun routines :: "('w \<Rightarrow> 'w) option list \<Rightarrow> ('w \<Rightarrow> 'w) list" where
  "routines [] = []"
| "routines (None # arr) = routines arr"
| "routines (Some f # arr) = f # routines arr"

subsection \<open>Firmware doubles\<close>

text \<open>A scripted double without state: the memory-map query answers with a fixed
  status and fixed values of the four variables, the exit call with a fixed status.\<close>

definition scripted_services :: "EFI_STATUS \<Rightarrow> memory_map_vars \<Rightarrow> EFI_STATUS \<Rightarrow> unit EFI_BOOT_SERVICES" where
  "scripted_services p_status p_vars e_status =
     \<lparr>GetMemoryMap = (\<lambda>vars buf fw. ((p_status, p_vars), fw)),
      ExitBootServices = (\<lambda>h k fw. (e_status, fw))\<rparr>"

definition scripted_table :: "EFI_STATUS \<Rightarrow> memory_map_vars \<Rightarrow> EFI_STATUS \<Rightarrow> unit EFI_SYSTEM_TABLE" where
  "scripted_table p_status p_vars e_status =
     \<lparr>BootServices = scripted_services p_status p_vars e_status\<rparr>"

text \<open>The status a firmware following the UEFI specification returns from the exit
  call for a stale map key: \<^verbatim>\<open>EFI_INVALID_PARAMETER\<close> with the error bit, the top
  bit of the word, set.\<close>

definition stale_key_status :: EFI_STATUS where
  "stale_key_status = 0x8000000000000002"

text \<open>A double that keeps a map key as its state. The map needs 160 bytes (four
  descriptors of 40 bytes). A query with a null buffer or too small a size reports
  buffer-too-small and the size needed, and leaves the other variables alone; a
  query with room reports success, the current key and the descriptor format. The
  exit call succeeds for the current key and reports a stale key otherwise.\<close>

definition keyed_services :: "UINTN EFI_BOOT_SERVICES" where
  "keyed_services =
     \<lparr>GetMemoryMap = (\<lambda>vars buf key.
        if buf = nullptr \<or> mapSize vars < 160
        then ((EFI_BUFFER_TOO_SMALL, vars\<lparr>mapSize := 160\<rparr>), key)
        else ((EFI_SUCCESS,
               \<lparr>mapSize = 160, mapKey = key, descriptorSize = 40, descriptorVersion = 1\<rparr>), key)),
      ExitBootServices = (\<lambda>h k key.
        if k = key then (EFI_SUCCESS, key) else (stale_key_status, key))\<rparr>"

definition keyed_table :: "UINTN EFI_SYSTEM_TABLE" where
  "keyed_table = \<lparr>BootServices = keyed_services\<rparr>"

text \<open>A port for test runs: the flag is clear at the first read and set at the four
  reads after it; nothing has been read or written yet.\<close>

definition mock_uart :: uart where
  "mock_uart = \<lparr>tx_status = [0x00, 0x20, 0x60, 0x20, 0x21], port_ops = []\<rparr>"

text \<open>Initializers for test runs: module \<open>m\<close> prints nothing and reports failure
  exactly when \<open>m\<close> is listed.\<close>

definition failing :: "module list \<Rightarrow> module \<Rightarrow> initializer" where
  "failing ms m = ([], m \<notin> set ms)"

subsection \<open>Segments of a run\<close>

text \<open>The events of a run, phase by phase, as the lemmas about \<^verbatim>\<open>main\<close> use them:
  the banner, the events of one recoverable module (its call, and the warning when it
  failed), the whole module phase when the memory manager came up, the size probe, the
  exit call, and the lines printed before the steady-state loop. That \<^verbatim>\<open>main\<close>
  produces these segments is proved below (\<open>main_hot_failure\<close>, \<open>main_handshake\<close>).\<close>

definition banner_events :: "event list" where
  "banner_events =
     [Debug_puts msg_boot_rule, Debug_puts msg_boot_title, Debug_puts msg_rule_end,
      Debug_puts msg_modules_begin]"

definition recoverable_events :: "(module \<Rightarrow> initializer) \<Rightarrow> module \<Rightarrow> event list" where
  "recoverable_events inits m =
     Init_call m (fst (inits m)) (snd (inits m))
       # (if snd (inits m) then [] else [Debug_puts (warning_of m)])"

definition sequencer_events :: "(module \<Rightarrow> initializer) \<Rightarrow> event list" where
  "sequencer_events inits =
     banner_events @ [Init_call Memory_manager (fst (inits Memory_manager)) True]
       @ recoverable_events inits Device_drivers @ recoverable_events inits File_system
       @ recoverable_events inits Graphics
       @ [Init_call Hot_services (fst (inits Hot_services)) (snd (inits Hot_services))]"

definition probe_events :: "'fw EFI_SYSTEM_TABLE \<Rightarrow> 'fw \<Rightarrow> event list" where
  "probe_events st fw =
     [Debug_puts msg_exiting,
      Call_GetMemoryMap zero_vars nullptr (probe_status st fw) (probe_vars st fw)]"

definition exit_events :: "'fw EFI_SYSTEM_TABLE \<Rightarrow> EFI_HANDLE \<Rightarrow> 'fw \<Rightarrow> event list" where
  "exit_events st h fw =
     [Call_ExitBootServices h (mapKey (probe_vars st fw)) (exit_status st h fw)]"

definition ready_events :: "event list" where
  "ready_events =
     [Debug_puts msg_exited, Debug_puts msg_ready_rule, Debug_puts msg_ready_title,
      Debug_puts msg_ready_loop, Debug_puts msg_rule_end]"

section \<open>Properties\<close>

subsection \<open>Auxiliary facts\<close>

lemma fatal_tag_simps:
  "is_fatal_diagnostic msg_err_memory"
  "is_fatal_diagnostic msg_err_hot_services"
  "is_fatal_diagnostic msg_err_map_size"
  "is_fatal_diagnostic msg_err_exit"
  "\<not> is_fatal_diagnostic msg_boot_rule"
  "\<not> is_fatal_diagnostic msg_boot_title"
  "\<not> is_fatal_diagnostic msg_rule_end"
  "\<not> is_fatal_diagnostic msg_modules_begin"
  "\<not> is_fatal_diagnostic msg_warn_devices"
  "\<not> is_fatal_diagnostic msg_warn_file_system"
  "\<not> is_fatal_diagnostic msg_warn_graphics"
  "\<not> is_fatal_diagnostic msg_exiting"
  "\<not> is_fatal_diagnostic msg_exited"
  "\<not> is_fatal_diagnostic msg_ready_rule"
  "\<not> is_fatal_diagnostic msg_ready_title"
  "\<not> is_fatal_diagnostic msg_ready_loop"
  by (simp_all add: is_fatal_diagnostic_def error_tag_def msg_err_memory_def
      msg_err_hot_services_def msg_err_map_size_def msg_err_exit_def msg_boot_rule_def
      msg_boot_title_def msg_rule_end_def msg_modules_begin_def msg_warn_devices_def
      msg_warn_file_system_def msg_warn_graphics_def msg_exiting_def msg_exited_def
      msg_ready_rule_def msg_ready_title_def msg_ready_loop_def)

lemma warning_tag_simps:
  "is_warning_diagnostic msg_warn_devices"
  "is_warning_diagnostic msg_warn_file_system"
  "is_warning_diagnostic msg_warn_graphics"
  "\<not> is_warning_diagnostic msg_err_memory"
  "\<not> is_warning_diagnostic msg_err_hot_services"
  "\<not> is_warning_diagnostic msg_err_map_size"
  "\<not> is_warning_diagnostic msg_err_exit"
  "\<not> is_warning_diagnostic msg_boot_rule"
  "\<not> is_warning_diagnostic msg_boot_title"
  "\<not> is_warning_diagnostic msg_rule_end"
  "\<not> is_warning_diagnostic msg_modules_begin"
  "\<not> is_warning_diagnostic msg_exiting"
  "\<not> is_warning_diagnostic msg_exited"
  "\<not> is_warning_diagnostic msg_ready_rule"
  "\<not> is_warning_diagnostic msg_ready_title"
  "\<not> is_warning_diagnostic msg_ready_loop"
  by (simp_all add: is_warning_diagnostic_def warning_tag_def msg_err_memory_def
      msg_err_hot_services_def msg_err_map_size_def msg_err_exit_def msg_boot_rule_def
      msg_boot_title_def msg_rule_end_def msg_modules_begin_def msg_warn_devices_def
      msg_warn_file_system_def msg_warn_graphics_def msg_exiting_def msg_exited_def
      msg_ready_rule_def msg_ready_title_def msg_ready_loop_def)

lemma steady_state_loop_eq: "steady_state_loop n t = t @ replicate n (Debug_putc 0x2E)"
  by (induction n arbitrary: t) (simp_all add: replicate_app_Cons_same)

lemma invoked_append: "invoked (s @ t) = invoked s @ invoked t"
  by (induction s rule: invoked.induct) simp_all

lemma own_diagnostics_append: "own_diagnostics (s @ t) = own_diagnostics s @ own_diagnostics t"
  by (induction s rule: own_diagnostics.induct) simp_all

lemma firmware_calls_append: "firmware_calls (s @ t) = firmware_calls s @ firmware_calls t"
  by (induction s rule: firmware_calls.induct) simp_all

lemma heartbeats_append: "heartbeats (s @ t) = heartbeats s + heartbeats t"
  by (induction s rule: heartbeats.induct) simp_all

lemma heartbeats_replicate: "heartbeats (replicate n (Debug_putc c)) = n"
  by (induction n) simp_all

text \<open>The whole run when the memory manager does not come up.\<close>

lemma main_memory_failure:
  assumes "\<not> snd (inits Memory_manager)"
  shows "main inits st h fw fuel =
    (Some EFI_OUT_OF_RESOURCES,
     [Debug_puts msg_boot_rule, Debug_puts msg_boot_title, Debug_puts msg_rule_end,
      Debug_puts msg_modules_begin,
      Init_call Memory_manager (fst (inits Memory_manager)) False,
      Debug_puts msg_err_memory])"
  using assms by (simp add: main_def call_init_def Let_def)

text \<open>The run when the memory manager came up: either the hot services fail, or the
  handshake with the firmware decides.\<close>

lemma main_hot_failure:
  assumes "snd (inits Memory_manager)" "\<not> snd (inits Hot_services)"
  shows "main inits st h fw fuel =
    (Some EFI_DEVICE_ERROR, sequencer_events inits @ [Debug_puts msg_err_hot_services])"
  using assms
  by (simp add: main_def call_init_def Let_def sequencer_events_def banner_events_def
      recoverable_events_def)

lemma main_handshake:
  assumes "snd (inits Memory_manager)" "snd (inits Hot_services)"
  shows "main inits st h fw fuel =
    (if probe_status st fw \<noteq> EFI_BUFFER_TOO_SMALL
     then (Some (probe_status st fw),
           sequencer_events inits @ probe_events st fw @ [Debug_puts msg_err_map_size])
     else if EFI_ERROR (exit_status st h fw)
     then (Some (exit_status st h fw),
           sequencer_events inits @ probe_events st fw @ exit_events st h fw
             @ [Debug_puts msg_err_exit])
     else (None,
           sequencer_events inits @ probe_events st fw @ exit_events st h fw
             @ ready_events @ replicate fuel (Debug_putc 0x2E)))"
  using assms
  by (simp add: main_def call_init_def Let_def sequencer_events_def banner_events_def
      recoverable_events_def probe_events_def exit_events_def ready_events_def
      probe_status_def probe_vars_def exit_status_def zero_vars_def steady_state_loop_eq
      split: prod.splits)

text \<open>The hot-services initializer is reached exactly when the memory manager came up.\<close>

lemma hot_services_reported:
  "Init_call Hot_services outs r \<in> set (snd (main inits st h fw fuel)) \<longleftrightarrow>
     snd (inits Memory_manager) \<and> outs = fst (inits Hot_services) \<and> r = snd (inits Hot_services)"
  by (auto simp add: main_def call_init_def Let_def steady_state_loop_eq split: prod.splits)

text \<open>Projections of the segments, and where a recoverable module shows in a run.\<close>

lemma invoked_replicate: "invoked (replicate n (Debug_putc c)) = []"
  by (induction n) simp_all

lemma own_diagnostics_replicate: "own_diagnostics (replicate n (Debug_putc c)) = []"
  by (induction n) simp_all

lemma firmware_calls_replicate: "firmware_calls (replicate n (Debug_putc c)) = []"
  by (induction n) simp_all

lemma sequencer_invoked:
  "invoked (sequencer_events inits)
     = [Memory_manager, Device_drivers, File_system, Graphics, Hot_services]"
  by (simp add: sequencer_events_def banner_events_def recoverable_events_def)

lemma sequencer_firmware_calls: "firmware_calls (sequencer_events inits) = []"
  by (simp add: sequencer_events_def banner_events_def recoverable_events_def)

lemma sequencer_heartbeats: "heartbeats (sequencer_events inits) = 0"
  by (simp add: sequencer_events_def banner_events_def recoverable_events_def)

lemma sequencer_fatal:
  "filter is_fatal_diagnostic (own_diagnostics (sequencer_events inits)) = []"
  by (simp add: sequencer_events_def banner_events_def recoverable_events_def fatal_tag_simps)

lemma sequencer_warnings:
  "filter is_warning_diagnostic (own_diagnostics (sequencer_events inits))
     = (if snd (inits Device_drivers) then [] else [msg_warn_devices])
       @ (if snd (inits File_system) then [] else [msg_warn_file_system])
       @ (if snd (inits Graphics) then [] else [msg_warn_graphics])"
  by (simp add: sequencer_events_def banner_events_def recoverable_events_def warning_tag_simps)

lemma handshake_projections:
  "invoked (probe_events st fw) = []"
  "invoked (exit_events st h fw) = []"
  "invoked ready_events = []"
  "own_diagnostics (probe_events st fw) = [msg_exiting]"
  "own_diagnostics (exit_events st h fw) = []"
  "own_diagnostics ready_events
     = [msg_exited, msg_ready_rule, msg_ready_title, msg_ready_loop, msg_rule_end]"
  "firmware_calls (probe_events st fw)
     = [Call_GetMemoryMap zero_vars nullptr (probe_status st fw) (probe_vars st fw)]"
  "firmware_calls (exit_events st h fw)
     = [Call_ExitBootServices h (mapKey (probe_vars st fw)) (exit_status st h fw)]"
  "firmware_calls ready_events = []"
  "heartbeats (probe_events st fw) = 0"
  "heartbeats (exit_events st h fw) = 0"
  "heartbeats ready_events = 0"
  by (simp_all add: probe_events_def exit_events_def ready_events_def)

lemmas trace_simps =
  invoked_append own_diagnostics_append firmware_calls_append heartbeats_append
  invoked_replicate own_diagnostics_replicate firmware_calls_replicate heartbeats_replicate
  sequencer_invoked sequencer_firmware_calls sequencer_heartbeats sequencer_fatal
  sequencer_warnings handshake_projections

lemma recoverable_reported:
  assumes "recoverable m"
  shows "Init_call m outs r \<in> set (snd (main inits st h fw fuel)) \<longleftrightarrow>
     snd (inits Memory_manager) \<and> outs = fst (inits m) \<and> r = snd (inits m)"
proof (cases "snd (inits Memory_manager)")
  case False
  with assms show ?thesis
    by (auto simp add: main_memory_failure recoverable_def)
next
  case mem: True
  have seq: "Init_call m outs r \<in> set (sequencer_events inits)
      \<longleftrightarrow> outs = fst (inits m) \<and> r = snd (inits m)"
    using assms
    by (auto simp add: recoverable_def sequencer_events_def banner_events_def
        recoverable_events_def)
  show ?thesis
  proof (cases "snd (inits Hot_services)")
    case False
    with mem seq show ?thesis by (simp add: main_hot_failure)
  next
    case True
    with mem seq show ?thesis
      by (simp add: main_handshake probe_events_def exit_events_def ready_events_def)
  qed
qed

lemma warning_names_module:
  "sublist name_device_drivers msg_warn_devices"
  "sublist name_file_system msg_warn_file_system"
  "sublist name_graphics msg_warn_graphics"
  by (simp_all add: sublist_Cons_right name_device_drivers_def msg_warn_devices_def
      name_file_system_def msg_warn_file_system_def name_graphics_def msg_warn_graphics_def)

lemma sequencer_prefix:
  assumes "snd (inits Memory_manager)"
  shows "\<exists>rest. snd (main inits st h fw fuel) = sequencer_events inits @ rest"
proof (cases "snd (inits Hot_services)")
  case False
  with assms show ?thesis by (simp add: main_hot_failure)
next
  case True
  with assms show ?thesis by (simp add: main_handshake)
qed

lemma warning_in_sequence:
  assumes "recoverable m" "\<not> snd (inits m)"
  shows "sublist [Init_call m (fst (inits m)) False, Debug_puts (warning_of m),
            Init_call (next_module m) (fst (inits (next_module m))) (snd (inits (next_module m)))]
          (sequencer_events inits)"
proof -
  consider "m = Device_drivers" | "m = File_system" | "m = Graphics"
    using assms(1) by (auto simp add: recoverable_def)
  then show ?thesis
    unfolding sublist_def
  proof cases
    case 1
    show "\<exists>ps ss. sequencer_events inits
        = ps @ [Init_call m (fst (inits m)) False, Debug_puts (warning_of m),
            Init_call (next_module m) (fst (inits (next_module m))) (snd (inits (next_module m)))] @ ss"
      apply (rule exI [of _ "banner_events @ [Init_call Memory_manager (fst (inits Memory_manager)) True]"])
      apply (rule exI [of _ "(if snd (inits File_system) then [] else [Debug_puts msg_warn_file_system])
          @ recoverable_events inits Graphics
          @ [Init_call Hot_services (fst (inits Hot_services)) (snd (inits Hot_services))]"])
      using 1 assms(2) by (simp add: sequencer_events_def recoverable_events_def)
  next
    case 2
    show "\<exists>ps ss. sequencer_events inits
        = ps @ [Init_call m (fst (inits m)) False, Debug_puts (warning_of m),
            Init_call (next_module m) (fst (inits (next_module m))) (snd (inits (next_module m)))] @ ss"
      apply (rule exI [of _ "banner_events @ [Init_call Memory_manager (fst (inits Memory_manager)) True]
          @ recoverable_events inits Device_drivers"])
      apply (rule exI [of _ "(if snd (inits Graphics) then [] else [Debug_puts msg_warn_graphics])
          @ [Init_call Hot_services (fst (inits Hot_services)) (snd (inits Hot_services))]"])
      using 2 assms(2) by (simp add: sequencer_events_def recoverable_events_def)
  next
    case 3
    show "\<exists>ps ss. sequencer_events inits
        = ps @ [Init_call m (fst (inits m)) False, Debug_puts (warning_of m),
            Init_call (next_module m) (fst (inits (next_module m))) (snd (inits (next_module m)))] @ ss"
      apply (rule exI [of _ "banner_events @ [Init_call Memory_manager (fst (inits Memory_manager)) True]
          @ recoverable_events inits Device_drivers @ recoverable_events inits File_system"])
      apply (rule exI [of _ "[]"])
      using 3 assms(2) by (simp add: sequencer_events_def recoverable_events_def)
  qed
qed

lemma sublist_append_right: "sublist xs ys \<Longrightarrow> sublist xs (ys @ zs)"
  by (metis sublist_append)

text \<open>The exit calls of the segments, and when an exit call shows in a run.\<close>

lemma exit_calls_append: "exit_calls (s @ t) = exit_calls s @ exit_calls t"
  by (induction s rule: exit_calls.induct) simp_all

lemma exit_calls_replicate: "exit_calls (replicate n (Debug_putc c)) = []"
  by (induction n) simp_all

lemma exit_calls_segments:
  "exit_calls (sequencer_events inits) = []"
  "exit_calls (probe_events st fw) = []"
  "exit_calls (exit_events st h fw)
     = [Call_ExitBootServices h (mapKey (probe_vars st fw)) (exit_status st h fw)]"
  "exit_calls ready_events = []"
  by (simp_all add: sequencer_events_def banner_events_def recoverable_events_def
      probe_events_def exit_events_def ready_events_def)

lemma exit_reported:
  "Call_ExitBootServices h' k s \<in> set (snd (main inits st h fw fuel)) \<longleftrightarrow>
     snd (inits Memory_manager) \<and> snd (inits Hot_services)
     \<and> probe_status st fw = EFI_BUFFER_TOO_SMALL
     \<and> h' = h \<and> k = mapKey (probe_vars st fw) \<and> s = exit_status st h fw"
proof (cases "snd (inits Memory_manager)")
  case False
  then show ?thesis by (simp add: main_memory_failure)
next
  case mem: True
  have seq: "Call_ExitBootServices h' k s \<notin> set (sequencer_events inits)"
    by (simp add: sequencer_events_def banner_events_def recoverable_events_def)
  show ?thesis
  proof (cases "snd (inits Hot_services)")
    case False
    with mem seq show ?thesis by (simp add: main_hot_failure)
  next
    case True
    with mem seq show ?thesis
      by (auto simp add: main_handshake probe_events_def exit_events_def ready_events_def)
  qed
qed

text \<open>Status codes, the firmware doubles and the initializers of the kernel.\<close>

lemma header_codes_not_error: "s \<in> set header_error_codes \<Longrightarrow> \<not> EFI_ERROR s"
  by (auto simp add: header_error_codes_def EFI_ERROR_def EFI_LOAD_ERROR_def
      EFI_INVALID_PARAMETER_def EFI_UNSUPPORTED_def EFI_BAD_BUFFER_SIZE_def
      EFI_BUFFER_TOO_SMALL_def EFI_NOT_READY_def EFI_DEVICE_ERROR_def EFI_WRITE_PROTECTED_def
      EFI_OUT_OF_RESOURCES_def EFI_NOT_FOUND_def EFI_ABORTED_def)

lemma keyed_probe:
  "probe_status keyed_table k = EFI_BUFFER_TOO_SMALL"
  "probe_vars keyed_table k = zero_vars\<lparr>mapSize := 160\<rparr>"
  by (simp_all add: probe_status_def probe_vars_def keyed_table_def keyed_services_def nullptr_def)

lemma keyed_exit:
  "exit_status keyed_table h k = (if k = 0 then EFI_SUCCESS else stale_key_status)"
proof -
  have "mapKey (probe_vars keyed_table k) = 0"
    by (simp add: keyed_probe zero_vars_def)
  then show ?thesis
    by (auto simp add: exit_status_def keyed_table_def keyed_services_def)
qed

lemma stale_key_is_error: "EFI_ERROR stale_key_status"
  by (simp add: EFI_ERROR_def stale_key_status_def)

lemma leafos_initializers_succeed: "snd (leafos_initializers m)"
  by (cases m) (simp_all add: init_memory_manager_def init_device_drivers_def
      init_file_system_def init_graphics_def init_hot_services_def)

lemma scripted_answers:
  "probe_status (scripted_table p v e) fw = p"
  "probe_vars (scripted_table p v e) fw = v"
  "exit_status (scripted_table p v e) h fw = e"
  by (simp_all add: probe_status_def probe_vars_def exit_status_def scripted_table_def
      scripted_services_def)

lemma status_code_simps:
  "EFI_INVALID_PARAMETER \<noteq> EFI_BUFFER_TOO_SMALL"
  "EFI_INVALID_PARAMETER \<noteq> EFI_DEVICE_ERROR"
  "EFI_INVALID_PARAMETER \<noteq> EFI_SUCCESS"
  "EFI_NOT_READY \<noteq> EFI_BUFFER_TOO_SMALL"
  "EFI_NOT_READY \<noteq> EFI_DEVICE_ERROR"
  "EFI_NOT_READY \<noteq> EFI_OUT_OF_RESOURCES"
  "EFI_NOT_READY \<noteq> EFI_SUCCESS"
  "EFI_UNSUPPORTED \<noteq> EFI_BUFFER_TOO_SMALL"
  "EFI_UNSUPPORTED \<noteq> EFI_SUCCESS"
  by (simp_all add: EFI_INVALID_PARAMETER_def EFI_BUFFER_TOO_SMALL_def EFI_DEVICE_ERROR_def
      EFI_SUCCESS_def EFI_NOT_READY_def EFI_OUT_OF_RESOURCES_def EFI_UNSUPPORTED_def)

lemma success_is_no_error: "\<not> EFI_ERROR EFI_SUCCESS"
  by (simp add: EFI_ERROR_def EFI_SUCCESS_def)

subsection \<open>The module sequencer\<close>

text \<open>
  Claim C3. If the memory-manager initializer reports failure, \<^verbatim>\<open>main\<close> returns
  \<^verbatim>\<open>EFI_OUT_OF_RESOURCES\<close> at once: the memory manager's is the only initializer
  called, \<^verbatim>\<open>main\<close> prints exactly one fatal-module diagnostic (the channel holds that
  one beside whatever the initializer itself printed), no firmware call is made, the
  loop is not entered, and the run ends with the failed call followed by the
  diagnostic.
\<close>

theorem memory_failure_aborts:
  assumes "\<not> snd (inits Memory_manager)"
  shows "fst (main inits st h fw fuel) = Some EFI_OUT_OF_RESOURCES
    \<and> invoked (snd (main inits st h fw fuel)) = [Memory_manager]
    \<and> filter is_fatal_diagnostic (own_diagnostics (snd (main inits st h fw fuel))) = [msg_err_memory]
    \<and> length (filter is_fatal_diagnostic (channel (snd (main inits st h fw fuel))))
        = 1 + length (filter is_fatal_diagnostic (fst (inits Memory_manager)))
    \<and> firmware_calls (snd (main inits st h fw fuel)) = []
    \<and> heartbeats (snd (main inits st h fw fuel)) = 0
    \<and> (\<exists>t. snd (main inits st h fw fuel)
          = t @ [Init_call Memory_manager (fst (inits Memory_manager)) False,
                 Debug_puts msg_err_memory])"
  using assms by (simp add: main_memory_failure fatal_tag_simps)

theorem memory_failure_aborts_witness:
  "\<not> snd (failing [Memory_manager] Memory_manager)
    \<and> fst (main (failing [Memory_manager]) keyed_table 1 7 3) = Some EFI_OUT_OF_RESOURCES
    \<and> invoked (snd (main (failing [Memory_manager]) keyed_table 1 7 3)) = [Memory_manager]
    \<and> filter is_fatal_diagnostic
         (own_diagnostics (snd (main (failing [Memory_manager]) keyed_table 1 7 3)))
        = [msg_err_memory]
    \<and> length (filter is_fatal_diagnostic
         (channel (snd (main (failing [Memory_manager]) keyed_table 1 7 3)))) = 1
    \<and> firmware_calls (snd (main (failing [Memory_manager]) keyed_table 1 7 3)) = []"
  using memory_failure_aborts [of "failing [Memory_manager]" keyed_table 1 7 3]
  by (simp add: failing_def)

text \<open>
  Claim C4. If the initializer of a recoverable module (devices, file system or
  graphics) reports failure, the very next event is \<^verbatim>\<open>main\<close>'s warning for that
  module, which carries the warning tag and names the module, and the event after it
  is the call of the next module's initializer. In the scenario where devices and
  graphics fail and memory, file system and hot services succeed, all five
  initializers are called, \<^verbatim>\<open>main\<close> prints exactly two warnings (devices, then
  graphics), and the first firmware call, the size probe of the exit handshake, is
  made.
\<close>

theorem recoverable_failure_continues:
  "(recoverable m \<and> Init_call m outs False \<in> set (snd (main inits st h fw fuel)) \<longrightarrow>
      sublist [Init_call m outs False, Debug_puts (warning_of m),
               Init_call (next_module m) (fst (inits (next_module m))) (snd (inits (next_module m)))]
        (snd (main inits st h fw fuel))
      \<and> is_warning_diagnostic (warning_of m)
      \<and> sublist (name_of_module m) (warning_of m))
   \<and> (snd (inits Memory_manager) \<and> \<not> snd (inits Device_drivers) \<and> snd (inits File_system)
        \<and> \<not> snd (inits Graphics) \<and> snd (inits Hot_services) \<longrightarrow>
      invoked (snd (main inits st h fw fuel))
        = [Memory_manager, Device_drivers, File_system, Graphics, Hot_services]
      \<and> filter is_warning_diagnostic (own_diagnostics (snd (main inits st h fw fuel)))
        = [msg_warn_devices, msg_warn_graphics]
      \<and> take 1 (firmware_calls (snd (main inits st h fw fuel)))
        = [Call_GetMemoryMap zero_vars nullptr (probe_status st fw) (probe_vars st fw)])"
proof (intro conjI impI)
  assume a: "recoverable m \<and> Init_call m outs False \<in> set (snd (main inits st h fw fuel))"
  then have r: "recoverable m" by simp
  from a have mem: "snd (inits Memory_manager)"
    and outs: "outs = fst (inits m)" and fails: "\<not> snd (inits m)"
    by (simp_all add: recoverable_reported [OF r])
  from sequencer_prefix [of inits st h fw fuel, OF mem] obtain rest
    where "snd (main inits st h fw fuel) = sequencer_events inits @ rest" by blast
  with warning_in_sequence [of m inits, OF r fails] outs
  show "sublist [Init_call m outs False, Debug_puts (warning_of m),
               Init_call (next_module m) (fst (inits (next_module m))) (snd (inits (next_module m)))]
        (snd (main inits st h fw fuel))"
    by (simp add: sublist_append_right)
  from r show "is_warning_diagnostic (warning_of m)"
    by (auto simp add: recoverable_def warning_tag_simps)
  from r show "sublist (name_of_module m) (warning_of m)"
    by (auto simp add: recoverable_def warning_names_module)
next
  assume s: "snd (inits Memory_manager) \<and> \<not> snd (inits Device_drivers) \<and> snd (inits File_system)
        \<and> \<not> snd (inits Graphics) \<and> snd (inits Hot_services)"
  then show "invoked (snd (main inits st h fw fuel))
        = [Memory_manager, Device_drivers, File_system, Graphics, Hot_services]"
    by (simp add: main_handshake trace_simps)
  from s show "filter is_warning_diagnostic (own_diagnostics (snd (main inits st h fw fuel)))
        = [msg_warn_devices, msg_warn_graphics]"
    by (simp add: main_handshake trace_simps warning_tag_simps fatal_tag_simps)
  from s show "take 1 (firmware_calls (snd (main inits st h fw fuel)))
        = [Call_GetMemoryMap zero_vars nullptr (probe_status st fw) (probe_vars st fw)]"
    by (simp add: main_handshake trace_simps)
qed

theorem recoverable_failure_continues_witness:
  "recoverable Device_drivers
    \<and> Init_call Device_drivers [] False
         \<in> set (snd (main (failing [Device_drivers, Graphics]) keyed_table 1 7 3))
    \<and> sublist [Init_call Device_drivers [] False, Debug_puts msg_warn_devices,
                Init_call File_system [] True]
         (snd (main (failing [Device_drivers, Graphics]) keyed_table 1 7 3))
    \<and> invoked (snd (main (failing [Device_drivers, Graphics]) keyed_table 1 7 3))
        = [Memory_manager, Device_drivers, File_system, Graphics, Hot_services]
    \<and> filter is_warning_diagnostic
         (own_diagnostics (snd (main (failing [Device_drivers, Graphics]) keyed_table 1 7 3)))
        = [msg_warn_devices, msg_warn_graphics]"
proof -
  have h1: "recoverable Device_drivers
      \<and> Init_call Device_drivers [] False
           \<in> set (snd (main (failing [Device_drivers, Graphics]) keyed_table 1 7 3))"
    by (simp add: recoverable_reported recoverable_def failing_def)
  have h2: "snd (failing [Device_drivers, Graphics] Memory_manager)
      \<and> \<not> snd (failing [Device_drivers, Graphics] Device_drivers)
      \<and> snd (failing [Device_drivers, Graphics] File_system)
      \<and> \<not> snd (failing [Device_drivers, Graphics] Graphics)
      \<and> snd (failing [Device_drivers, Graphics] Hot_services)"
    by (simp add: failing_def)
  from recoverable_failure_continues
    [of Device_drivers "[]" "failing [Device_drivers, Graphics]" keyed_table 1 7 3] h1 h2
  show ?thesis by (simp add: failing_def)
qed

text \<open>
  Claim C5. If the hot-services initializer reports failure, \<^verbatim>\<open>main\<close> prints a fatal
  diagnostic and returns \<^verbatim>\<open>EFI_DEVICE_ERROR\<close>; no firmware call is made (the exit
  handshake is not attempted) and no heartbeat is emitted (the steady-state loop is not
  entered).
\<close>

theorem hot_services_failure_aborts:
  assumes "Init_call Hot_services outs False \<in> set (snd (main inits st h fw fuel))"
  shows "fst (main inits st h fw fuel) = Some EFI_DEVICE_ERROR
    \<and> filter is_fatal_diagnostic (own_diagnostics (snd (main inits st h fw fuel)))
        = [msg_err_hot_services]
    \<and> firmware_calls (snd (main inits st h fw fuel)) = []
    \<and> heartbeats (snd (main inits st h fw fuel)) = 0
    \<and> (\<exists>t. snd (main inits st h fw fuel)
          = t @ [Init_call Hot_services outs False, Debug_puts msg_err_hot_services])"
proof -
  from assms have mem: "snd (inits Memory_manager)" and hot: "\<not> snd (inits Hot_services)"
    and outs: "outs = fst (inits Hot_services)"
    by (simp_all add: hot_services_reported)
  show ?thesis
    using mem hot outs
    by (simp add: main_def call_init_def Let_def fatal_tag_simps own_diagnostics_append
        firmware_calls_append heartbeats_append)
qed

theorem hot_services_failure_aborts_witness:
  "Init_call Hot_services [] False \<in> set (snd (main (failing [Hot_services]) keyed_table 1 7 3))
    \<and> fst (main (failing [Hot_services]) keyed_table 1 7 3) = Some EFI_DEVICE_ERROR
    \<and> firmware_calls (snd (main (failing [Hot_services]) keyed_table 1 7 3)) = []
    \<and> heartbeats (snd (main (failing [Hot_services]) keyed_table 1 7 3)) = 0"
proof -
  have h: "Init_call Hot_services [] False
      \<in> set (snd (main (failing [Hot_services]) keyed_table 1 7 3))"
    by (simp add: hot_services_reported failing_def)
  from hot_services_failure_aborts [OF h] h show ?thesis by simp
qed

subsection \<open>The exit handshake\<close>

text \<open>
  Claim C1. The claim asks that the exit call is made only with a map key obtained,
  together with a descriptor snapshot, from a memory-map query that succeeded. The
  kernel run against the keyed firmware double (current map key 7, image handle 1)
  makes two firmware calls: the size probe with a null buffer, which reports
  buffer-too-small and leaves the key variable at its initial 0, and the exit call
  with that key 0. No query succeeded before the exit call, which the firmware rejects
  as stale.
\<close>

theorem exit_uses_probe_key:
  "firmware_calls (snd (main leafos_initializers keyed_table 1 7 0))
     = [Call_GetMemoryMap zero_vars nullptr EFI_BUFFER_TOO_SMALL (zero_vars\<lparr>mapSize := 160\<rparr>),
        Call_ExitBootServices 1 0 stale_key_status]
   \<and> fst (main leafos_initializers keyed_table 1 7 0) = Some stale_key_status"
proof -
  have "main leafos_initializers keyed_table 1 7 0 =
      (Some stale_key_status,
       sequencer_events leafos_initializers @ probe_events keyed_table 7
         @ exit_events keyed_table 1 7 @ [Debug_puts msg_err_exit])"
    using main_handshake [of leafos_initializers keyed_table 1 7 0]
    by (simp add: init_memory_manager_def init_hot_services_def keyed_probe keyed_exit
        stale_key_is_error)
  then show ?thesis
    by (simp add: trace_simps keyed_probe keyed_exit zero_vars_def)
qed

text \<open>
  Claim C2, as amended. If an exit call of the run reports a status that
  \<^verbatim>\<open>EFI_ERROR\<close> recognises (a stale map key reported with the error bit included),
  \<^verbatim>\<open>main\<close> does not retry and does not query again: that exit call is the only exit
  call and the last firmware call of the run, \<^verbatim>\<open>main\<close> prints the exit-failure
  diagnostic and returns the exit call's status; the loop is not entered.
\<close>

theorem exit_failure_is_final:
  assumes "Call_ExitBootServices h' k s \<in> set (snd (main inits st h fw fuel))"
    and "EFI_ERROR s"
  shows "fst (main inits st h fw fuel) = Some s
    \<and> exit_calls (snd (main inits st h fw fuel)) = [Call_ExitBootServices h' k s]
    \<and> (\<exists>before. firmware_calls (snd (main inits st h fw fuel))
          = before @ [Call_ExitBootServices h' k s])
    \<and> filter is_fatal_diagnostic (own_diagnostics (snd (main inits st h fw fuel)))
        = [msg_err_exit]
    \<and> heartbeats (snd (main inits st h fw fuel)) = 0"
proof -
  from assms(1) have mem: "snd (inits Memory_manager)" and hot: "snd (inits Hot_services)"
    and probe: "probe_status st fw = EFI_BUFFER_TOO_SMALL"
    and call: "h' = h" "k = mapKey (probe_vars st fw)" "s = exit_status st h fw"
    by (simp_all add: exit_reported)
  from assms(2) call have err: "EFI_ERROR (exit_status st h fw)" by simp
  from mem hot probe err have m: "main inits st h fw fuel =
      (Some (exit_status st h fw),
       sequencer_events inits @ probe_events st fw @ exit_events st h fw
         @ [Debug_puts msg_err_exit])"
    by (simp add: main_handshake)
  have "firmware_calls (snd (main inits st h fw fuel))
      = firmware_calls (probe_events st fw) @ [Call_ExitBootServices h' k s]"
    by (simp add: m call trace_simps)
  then have last: "\<exists>before. firmware_calls (snd (main inits st h fw fuel))
      = before @ [Call_ExitBootServices h' k s]"
    by blast
  from m call last show ?thesis
    by (simp add: trace_simps fatal_tag_simps exit_calls_append exit_calls_segments)
qed

theorem exit_failure_is_final_witness:
  "Call_ExitBootServices 1 0 stale_key_status
      \<in> set (snd (main (failing []) keyed_table 1 7 3))
    \<and> EFI_ERROR stale_key_status
    \<and> fst (main (failing []) keyed_table 1 7 3) = Some stale_key_status
    \<and> exit_calls (snd (main (failing []) keyed_table 1 7 3))
        = [Call_ExitBootServices 1 0 stale_key_status]
    \<and> (\<exists>before. firmware_calls (snd (main (failing []) keyed_table 1 7 3))
          = before @ [Call_ExitBootServices 1 0 stale_key_status])
    \<and> heartbeats (snd (main (failing []) keyed_table 1 7 3)) = 0"
proof -
  have h: "Call_ExitBootServices 1 0 stale_key_status
      \<in> set (snd (main (failing []) keyed_table 1 7 3))"
    by (simp add: exit_reported failing_def keyed_probe keyed_exit zero_vars_def)
  from exit_failure_is_final [OF h stale_key_is_error] h stale_key_is_error
  show ?thesis by simp
qed

text \<open>The claim as stated fails: the kernel's exit call is rejected for a stale key,
  and the kernel returns that status with the rejected exit call as its last firmware
  call, one query (the probe) before it and none after it.\<close>

theorem stale_key_not_requeried:
  "fst (main leafos_initializers keyed_table 2 9 5) = Some stale_key_status
    \<and> firmware_calls (snd (main leafos_initializers keyed_table 2 9 5))
        = [Call_GetMemoryMap zero_vars nullptr EFI_BUFFER_TOO_SMALL (zero_vars\<lparr>mapSize := 160\<rparr>),
           Call_ExitBootServices 2 0 stale_key_status]"
proof -
  have "main leafos_initializers keyed_table 2 9 5 =
      (Some stale_key_status,
       sequencer_events leafos_initializers @ probe_events keyed_table 9
         @ exit_events keyed_table 2 9 @ [Debug_puts msg_err_exit])"
    using main_handshake [of leafos_initializers keyed_table 2 9 5]
    by (simp add: init_memory_manager_def init_hot_services_def keyed_probe keyed_exit
        stale_key_is_error)
  then show ?thesis
    by (simp add: trace_simps keyed_probe keyed_exit zero_vars_def)
qed

text \<open>
  Claim C6, as amended. When the size probe reports anything but buffer-too-small,
  \<^verbatim>\<open>main\<close> returns to the loader after printing the map-size diagnostic; the probe is
  the only firmware call (no further query, no exit call) and the loop is not entered.
  For an outcome other than success the value returned is the probe's own status, not
  a fixed device-error code.
\<close>

theorem probe_failure_aborts:
  assumes "snd (inits Memory_manager)" "snd (inits Hot_services)"
    and "probe_status st fw \<noteq> EFI_BUFFER_TOO_SMALL"
  shows "fst (main inits st h fw fuel) \<noteq> None
    \<and> (probe_status st fw \<noteq> EFI_SUCCESS \<longrightarrow>
         fst (main inits st h fw fuel) = Some (probe_status st fw))
    \<and> firmware_calls (snd (main inits st h fw fuel))
        = [Call_GetMemoryMap zero_vars nullptr (probe_status st fw) (probe_vars st fw)]
    \<and> filter is_fatal_diagnostic (own_diagnostics (snd (main inits st h fw fuel)))
        = [msg_err_map_size]
    \<and> heartbeats (snd (main inits st h fw fuel)) = 0"
  using assms by (simp add: main_handshake trace_simps fatal_tag_simps)

theorem probe_failure_aborts_witness:
  "snd (failing [] Memory_manager) \<and> snd (failing [] Hot_services)
    \<and> probe_status (scripted_table EFI_UNSUPPORTED zero_vars EFI_SUCCESS) () \<noteq> EFI_BUFFER_TOO_SMALL
    \<and> fst (main (failing []) (scripted_table EFI_UNSUPPORTED zero_vars EFI_SUCCESS) 1 () 3)
        = Some EFI_UNSUPPORTED
    \<and> firmware_calls
         (snd (main (failing []) (scripted_table EFI_UNSUPPORTED zero_vars EFI_SUCCESS) 1 () 3))
        = [Call_GetMemoryMap zero_vars nullptr EFI_UNSUPPORTED zero_vars]"
proof -
  have h: "snd (failing [] Memory_manager)" "snd (failing [] Hot_services)"
    "probe_status (scripted_table EFI_UNSUPPORTED zero_vars EFI_SUCCESS) () \<noteq> EFI_BUFFER_TOO_SMALL"
    by (simp_all add: failing_def scripted_answers status_code_simps)
  from probe_failure_aborts
    [of "failing []" "scripted_table EFI_UNSUPPORTED zero_vars EFI_SUCCESS" "()" 1 3, OF h] h
  show ?thesis by (simp add: scripted_answers status_code_simps)
qed

text \<open>The claim as stated fails: a probe that reports an invalid parameter makes the
  kernel return that status, which is not the device-error code.\<close>

theorem probe_failure_not_device_error:
  "probe_status (scripted_table EFI_INVALID_PARAMETER zero_vars EFI_SUCCESS) ()
      \<noteq> EFI_BUFFER_TOO_SMALL
    \<and> fst (main leafos_initializers
              (scripted_table EFI_INVALID_PARAMETER zero_vars EFI_SUCCESS) 1 () 3)
        = Some EFI_INVALID_PARAMETER
    \<and> EFI_INVALID_PARAMETER \<noteq> EFI_DEVICE_ERROR"
  using main_handshake
    [of leafos_initializers "scripted_table EFI_INVALID_PARAMETER zero_vars EFI_SUCCESS" 1 "()" 3]
  by (simp add: init_memory_manager_def init_hot_services_def scripted_answers
      status_code_simps)

text \<open>
  Claim C8. \<^verbatim>\<open>EFI_ERROR\<close> is false for every error code the header defines; so when
  the exit call returns one of them, \<^verbatim>\<open>main\<close> does not take the failure branch: it
  prints the lines of a successful exit right after the exit call, prints no fatal
  diagnostic, and is in its steady-state loop for ever (one heartbeat per iteration,
  no status returned).
\<close>

theorem header_codes_pass_as_success:
  "(\<forall>s \<in> set header_error_codes. \<not> EFI_ERROR s)
   \<and> (snd (inits Memory_manager) \<and> snd (inits Hot_services)
        \<and> probe_status st fw = EFI_BUFFER_TOO_SMALL
        \<and> exit_status st h fw \<in> set header_error_codes \<longrightarrow>
      fst (main inits st h fw fuel) = None
      \<and> (\<exists>pre. snd (main inits st h fw fuel)
            = pre @ [Call_ExitBootServices h (mapKey (probe_vars st fw)) (exit_status st h fw),
                     Debug_puts msg_exited, Debug_puts msg_ready_rule, Debug_puts msg_ready_title,
                     Debug_puts msg_ready_loop, Debug_puts msg_rule_end]
                @ replicate fuel (Debug_putc 0x2E))
      \<and> filter is_fatal_diagnostic (own_diagnostics (snd (main inits st h fw fuel))) = []
      \<and> heartbeats (snd (main inits st h fw fuel)) = fuel)"
proof (intro conjI impI ballI)
  fix s assume "s \<in> set header_error_codes"
  then show "\<not> EFI_ERROR s" by (rule header_codes_not_error)
next
  assume a: "snd (inits Memory_manager) \<and> snd (inits Hot_services)
        \<and> probe_status st fw = EFI_BUFFER_TOO_SMALL
        \<and> exit_status st h fw \<in> set header_error_codes"
  then have ok: "\<not> EFI_ERROR (exit_status st h fw)" by (simp add: header_codes_not_error)
  from a ok have m: "main inits st h fw fuel =
      (None, sequencer_events inits @ probe_events st fw @ exit_events st h fw
             @ ready_events @ replicate fuel (Debug_putc 0x2E))"
    by (simp add: main_handshake)
  show "fst (main inits st h fw fuel) = None" by (simp add: m)
  show "\<exists>pre. snd (main inits st h fw fuel)
            = pre @ [Call_ExitBootServices h (mapKey (probe_vars st fw)) (exit_status st h fw),
                     Debug_puts msg_exited, Debug_puts msg_ready_rule, Debug_puts msg_ready_title,
                     Debug_puts msg_ready_loop, Debug_puts msg_rule_end]
                @ replicate fuel (Debug_putc 0x2E)"
    by (rule exI [of _ "sequencer_events inits @ probe_events st fw"])
       (simp add: m exit_events_def ready_events_def)
  show "filter is_fatal_diagnostic (own_diagnostics (snd (main inits st h fw fuel))) = []"
    by (simp add: m trace_simps fatal_tag_simps)
  show "heartbeats (snd (main inits st h fw fuel)) = fuel"
    by (simp add: m trace_simps)
qed

theorem header_codes_pass_as_success_witness:
  "EFI_INVALID_PARAMETER \<in> set header_error_codes
    \<and> \<not> EFI_ERROR EFI_INVALID_PARAMETER
    \<and> fst (main (failing [])
              (scripted_table EFI_BUFFER_TOO_SMALL zero_vars EFI_INVALID_PARAMETER) 1 () 3) = None
    \<and> heartbeats (snd (main (failing [])
              (scripted_table EFI_BUFFER_TOO_SMALL zero_vars EFI_INVALID_PARAMETER) 1 () 3)) = 3"
proof -
  have m: "EFI_INVALID_PARAMETER \<in> set header_error_codes"
    by (simp add: header_error_codes_def)
  have h: "snd (failing [] Memory_manager) \<and> snd (failing [] Hot_services)
      \<and> probe_status (scripted_table EFI_BUFFER_TOO_SMALL zero_vars EFI_INVALID_PARAMETER) ()
          = EFI_BUFFER_TOO_SMALL
      \<and> exit_status (scripted_table EFI_BUFFER_TOO_SMALL zero_vars EFI_INVALID_PARAMETER) 1 ()
          \<in> set header_error_codes"
    by (simp add: failing_def scripted_answers m)
  note t = header_codes_pass_as_success
    [of "failing []" "scripted_table EFI_BUFFER_TOO_SMALL zero_vars EFI_INVALID_PARAMETER"
        "()" 1 3]
  from t m have e: "\<not> EFI_ERROR EFI_INVALID_PARAMETER" by blast
  from t h have "fst (main (failing [])
        (scripted_table EFI_BUFFER_TOO_SMALL zero_vars EFI_INVALID_PARAMETER) 1 () 3) = None
      \<and> heartbeats (snd (main (failing [])
        (scripted_table EFI_BUFFER_TOO_SMALL zero_vars EFI_INVALID_PARAMETER) 1 () 3)) = 3"
    by blast
  with m e show ?thesis by simp
qed

subsection \<open>What the entry routine returns\<close>

text \<open>
  Claim C7, as amended. In a run whose size probe, if it is reached, does not report
  success, a value returned to the loader is \<^verbatim>\<open>EFI_OUT_OF_RESOURCES\<close>,
  \<^verbatim>\<open>EFI_DEVICE_ERROR\<close>, or the status reported by the firmware call that failed: the
  size probe's when it is not buffer-too-small, the exit call's when \<^verbatim>\<open>EFI_ERROR\<close>
  holds of it. In the proceed case (memory manager and hot services up, probe reports
  buffer-too-small, exit status not an error) the routine never returns: after any
  number of loop iterations no status has been produced.
\<close>

theorem main_return_values:
  "((snd (inits Memory_manager) \<and> snd (inits Hot_services) \<longrightarrow> probe_status st fw \<noteq> EFI_SUCCESS)
      \<and> fst (main inits st h fw fuel) = Some r \<longrightarrow>
      r = EFI_OUT_OF_RESOURCES \<or> r = EFI_DEVICE_ERROR
      \<or> (r = probe_status st fw \<and> r \<noteq> EFI_BUFFER_TOO_SMALL
          \<and> Call_GetMemoryMap zero_vars nullptr r (probe_vars st fw)
               \<in> set (snd (main inits st h fw fuel)))
      \<or> (r = exit_status st h fw \<and> EFI_ERROR r
          \<and> Call_ExitBootServices h (mapKey (probe_vars st fw)) r
               \<in> set (snd (main inits st h fw fuel))))
   \<and> (snd (inits Memory_manager) \<and> snd (inits Hot_services)
        \<and> probe_status st fw = EFI_BUFFER_TOO_SMALL \<and> \<not> EFI_ERROR (exit_status st h fw) \<longrightarrow>
      (\<forall>n. fst (main inits st h fw n) = None \<and> heartbeats (snd (main inits st h fw n)) = n))"
proof (intro conjI impI)
  assume a: "(snd (inits Memory_manager) \<and> snd (inits Hot_services) \<longrightarrow> probe_status st fw \<noteq> EFI_SUCCESS)
      \<and> fst (main inits st h fw fuel) = Some r"
  show "r = EFI_OUT_OF_RESOURCES \<or> r = EFI_DEVICE_ERROR
      \<or> (r = probe_status st fw \<and> r \<noteq> EFI_BUFFER_TOO_SMALL
          \<and> Call_GetMemoryMap zero_vars nullptr r (probe_vars st fw)
               \<in> set (snd (main inits st h fw fuel)))
      \<or> (r = exit_status st h fw \<and> EFI_ERROR r
          \<and> Call_ExitBootServices h (mapKey (probe_vars st fw)) r
               \<in> set (snd (main inits st h fw fuel)))"
  proof (cases "snd (inits Memory_manager)")
    case False
    with a show ?thesis by (simp add: main_memory_failure)
  next
    case mem: True
    show ?thesis
    proof (cases "snd (inits Hot_services)")
      case False
      with mem a show ?thesis by (simp add: main_hot_failure)
    next
      case True
      with mem a show ?thesis
        by (auto simp add: main_handshake probe_events_def exit_events_def split: if_splits)
    qed
  qed
next
  assume "snd (inits Memory_manager) \<and> snd (inits Hot_services)
        \<and> probe_status st fw = EFI_BUFFER_TOO_SMALL \<and> \<not> EFI_ERROR (exit_status st h fw)"
  then show "\<forall>n. fst (main inits st h fw n) = None \<and> heartbeats (snd (main inits st h fw n)) = n"
    by (simp add: main_handshake trace_simps)
qed

theorem main_return_values_witness:
  "fst (main (failing []) (scripted_table EFI_UNSUPPORTED zero_vars EFI_SUCCESS) 1 () 3)
      = Some EFI_UNSUPPORTED
    \<and> Call_GetMemoryMap zero_vars nullptr EFI_UNSUPPORTED zero_vars
        \<in> set (snd (main (failing []) (scripted_table EFI_UNSUPPORTED zero_vars EFI_SUCCESS) 1 () 3))
    \<and> probe_status keyed_table 0 = EFI_BUFFER_TOO_SMALL
    \<and> \<not> EFI_ERROR (exit_status keyed_table 1 0)
    \<and> (\<forall>n. fst (main (failing []) keyed_table 1 0 n) = None
          \<and> heartbeats (snd (main (failing []) keyed_table 1 0 n)) = n)"
proof -
  have r: "fst (main (failing []) (scripted_table EFI_UNSUPPORTED zero_vars EFI_SUCCESS) 1 () 3)
      = Some EFI_UNSUPPORTED"
    using main_handshake
      [of "failing []" "scripted_table EFI_UNSUPPORTED zero_vars EFI_SUCCESS" 1 "()" 3]
    by (simp add: failing_def scripted_answers status_code_simps)
  have p: "snd (failing [] Memory_manager) \<and> snd (failing [] Hot_services)
      \<longrightarrow> probe_status (scripted_table EFI_UNSUPPORTED zero_vars EFI_SUCCESS) () \<noteq> EFI_SUCCESS"
    by (simp add: scripted_answers status_code_simps)
  have unsupported: "EFI_UNSUPPORTED \<noteq> EFI_OUT_OF_RESOURCES"
    "EFI_UNSUPPORTED \<noteq> EFI_DEVICE_ERROR" "\<not> EFI_ERROR EFI_UNSUPPORTED"
    by (simp_all add: EFI_UNSUPPORTED_def EFI_OUT_OF_RESOURCES_def EFI_DEVICE_ERROR_def
        EFI_ERROR_def)
  from main_return_values
    [of "failing []" "scripted_table EFI_UNSUPPORTED zero_vars EFI_SUCCESS" "()" 1 3
        EFI_UNSUPPORTED] r p unsupported
  have one: "Call_GetMemoryMap zero_vars nullptr EFI_UNSUPPORTED zero_vars
      \<in> set (snd (main (failing []) (scripted_table EFI_UNSUPPORTED zero_vars EFI_SUCCESS) 1 () 3))"
    by (auto simp add: scripted_answers)
  have h: "snd (failing [] Memory_manager) \<and> snd (failing [] Hot_services)
      \<and> probe_status keyed_table 0 = EFI_BUFFER_TOO_SMALL
      \<and> \<not> EFI_ERROR (exit_status keyed_table 1 0)"
    by (simp add: failing_def keyed_probe keyed_exit success_is_no_error)
  from main_return_values [of "failing []" keyed_table 0 1 3 0] h
  have two: "\<forall>n. fst (main (failing []) keyed_table 1 0 n) = None
      \<and> heartbeats (snd (main (failing []) keyed_table 1 0 n)) = n"
    by blast
  from r one h two show ?thesis by simp
qed

text \<open>The claim as stated fails: a probe that reports not-ready makes the kernel
  return that status, which is neither of the two abort signals.\<close>

theorem main_returns_other_status:
  "fst (main leafos_initializers (scripted_table EFI_NOT_READY zero_vars EFI_SUCCESS) 1 () 3)
      = Some EFI_NOT_READY
    \<and> EFI_NOT_READY \<noteq> EFI_OUT_OF_RESOURCES \<and> EFI_NOT_READY \<noteq> EFI_DEVICE_ERROR"
  using main_handshake
    [of leafos_initializers "scripted_table EFI_NOT_READY zero_vars EFI_SUCCESS" 1 "()" 3]
  by (simp add: init_memory_manager_def init_hot_services_def scripted_answers
      status_code_simps)

subsection \<open>The serial diagnostic channel\<close>

text \<open>The busy-wait returns after a run of reads without the flag and one read with
  it; a character costs one raised flag, a line feed two.\<close>

declare debug_putc.simps [simp del]

lemma written_append: "written (xs @ ys) = written xs @ written ys"
  by (induction xs rule: written.induct) simp_all

lemma wait_tx_empty_result:
  "wait_tx_empty vs ops = Inr (vs', ops') \<Longrightarrow>
     \<exists>pre v. vs = pre @ v # vs' \<and> v AND 0x20 \<noteq> 0
       \<and> ops' = ops @ map Port_read pre @ [Port_read v]"
proof (induction vs arbitrary: ops)
  case Nil
  then show ?case by simp
next
  case (Cons a vs)
  show ?case
  proof (cases "a AND 0x20 \<noteq> 0")
    case True
    with Cons.prems show ?thesis by (intro exI [of _ "[]"] exI [of _ a]) auto
  next
    case False
    with Cons.prems have "wait_tx_empty vs (ops @ [Port_read a]) = Inr (vs', ops')" by simp
    from Cons.IH [OF this] obtain pre v where
      "vs = pre @ v # vs'" "v AND 0x20 \<noteq> 0"
      "ops' = (ops @ [Port_read a]) @ map Port_read pre @ [Port_read v]" by blast
    then show ?thesis by (intro exI [of _ "a # pre"] exI [of _ v]) auto
  qed
qed

lemma written_reads: "written (map Port_read pre) = []"
  by (induction pre) simp_all

lemma reads_then_write_ready:
  "v AND 0x20 \<noteq> 0 \<Longrightarrow>
     writes_after_ready (map Port_read pre @ [Port_read v, Port_write c])"
proof (induction pre)
  case Nil
  then show ?case by simp
next
  case (Cons a pre)
  then show ?case by (cases pre) simp_all
qed

lemma writes_after_ready_append:
  "writes_after_ready ops \<Longrightarrow> v AND 0x20 \<noteq> 0 \<Longrightarrow>
     writes_after_ready (ops @ map Port_read pre @ [Port_read v, Port_write c])"
proof (induction ops rule: writes_after_ready.induct)
  case 1
  then show ?case by (simp add: reads_then_write_ready)
next
  case (2 v')
  with reads_then_write_ready [of v pre c] show ?case by (cases pre) simp_all
next
  case (3 v' c' ops)
  then show ?case by simp
next
  case (4 v' va ops)
  then show ?case by simp
next
  case (5 c' ops)
  then show ?case by simp
qed

lemma ready_count_split:
  "v AND 0x20 \<noteq> 0 \<Longrightarrow> ready_count (pre @ v # vs) = ready_count pre + Suc (ready_count vs)"
  by (simp add: ready_count_def)

lemma wait_tx_empty_ready:
  "0 < ready_count vs \<Longrightarrow>
     \<exists>vs' ops'. wait_tx_empty vs ops = Inr (vs', ops') \<and> ready_count vs = Suc (ready_count vs')"
proof (induction vs arbitrary: ops)
  case Nil
  then show ?case by (simp add: ready_count_def)
next
  case (Cons a vs)
  show ?case
  proof (cases "a AND 0x20 \<noteq> 0")
    case True
    then show ?thesis by (simp add: ready_count_def)
  next
    case False
    with Cons.prems have "0 < ready_count vs" by (simp add: ready_count_def)
    from Cons.IH [OF this, of "ops @ [Port_read a]"] False show ?thesis
      by (simp add: ready_count_def)
  qed
qed

lemma debug_putc_plain:
  assumes "c \<noteq> 0x0A" "debug_putc c u = Inr u'"
  shows "\<exists>pre v vs'. tx_status u = pre @ v # vs' \<and> v AND 0x20 \<noteq> 0
    \<and> u' = \<lparr>tx_status = vs', port_ops = port_ops u @ map Port_read pre @ [Port_read v, Port_write c]\<rparr>"
proof (cases "wait_tx_empty (tx_status u) (port_ops u)")
  case (Inl f)
  with assms show ?thesis by (simp add: debug_putc.simps)
next
  case (Inr r)
  obtain vs ops where r: "r = (vs, ops)" by (cases r)
  from wait_tx_empty_result [of "tx_status u" "port_ops u" vs ops] Inr r
  obtain pre v where "tx_status u = pre @ v # vs" "v AND 0x20 \<noteq> 0"
    "ops = port_ops u @ map Port_read pre @ [Port_read v]" by auto
  moreover from assms Inr r have "u' = \<lparr>tx_status = vs, port_ops = ops @ [Port_write c]\<rparr>"
    by (simp add: debug_putc.simps)
  ultimately show ?thesis by auto
qed

lemma debug_putc_line_feed:
  assumes "debug_putc 0x0A u = Inr u'"
  shows "\<exists>u1. debug_putc 0x0D u1 = Inr u'
    \<and> (\<exists>pre v vs'. tx_status u = pre @ v # vs' \<and> v AND 0x20 \<noteq> 0
        \<and> u1 = \<lparr>tx_status = vs',
                 port_ops = port_ops u @ map Port_read pre @ [Port_read v, Port_write 0x0A]\<rparr>)"
proof (cases "wait_tx_empty (tx_status u) (port_ops u)")
  case (Inl f)
  with assms show ?thesis by (simp add: debug_putc.simps)
next
  case (Inr r)
  obtain vs ops where r: "r = (vs, ops)" by (cases r)
  from wait_tx_empty_result [of "tx_status u" "port_ops u" vs ops] Inr r
  obtain pre v where "tx_status u = pre @ v # vs" "v AND 0x20 \<noteq> 0"
    "ops = port_ops u @ map Port_read pre @ [Port_read v]" by auto
  moreover from assms Inr r
  have "debug_putc 0x0D \<lparr>tx_status = vs, port_ops = ops @ [Port_write 0x0A]\<rparr> = Inr u'"
    by (subst (asm) debug_putc.simps) simp
  ultimately show ?thesis by auto
qed

lemma debug_putc_written:
  assumes "debug_putc c u = Inr u'"
  shows "written (port_ops u') = written (port_ops u) @ (if c = 0x0A then [0x0A, 0x0D] else [c])"
proof (cases "c = 0x0A")
  case False
  from debug_putc_plain [OF False assms] False show ?thesis
    by (auto simp add: written_append written_reads)
next
  case True
  with assms have "debug_putc 0x0A u = Inr u'" by simp
  from debug_putc_line_feed [OF this] obtain u1 pre v vs' where
    cr: "debug_putc 0x0D u1 = Inr u'" and
    u1: "u1 = \<lparr>tx_status = vs',
              port_ops = port_ops u @ map Port_read pre @ [Port_read v, Port_write 0x0A]\<rparr>"
    by blast
  have "(0x0D :: byte) \<noteq> 0x0A" by simp
  from debug_putc_plain [OF this cr] u1 True show ?thesis
    by (auto simp add: written_append written_reads)
qed

lemma debug_putc_waits:
  assumes "debug_putc c u = Inr u'" "writes_after_ready (port_ops u)"
  shows "writes_after_ready (port_ops u')"
proof (cases "c = 0x0A")
  case False
  from debug_putc_plain [OF False assms(1)] assms(2) show ?thesis
    by (auto simp add: writes_after_ready_append)
next
  case True
  with assms have "debug_putc 0x0A u = Inr u'" by simp
  from debug_putc_line_feed [OF this] obtain u1 pre v vs' where
    cr: "debug_putc 0x0D u1 = Inr u'" and v: "v AND 0x20 \<noteq> 0" and
    u1: "u1 = \<lparr>tx_status = vs',
              port_ops = port_ops u @ map Port_read pre @ [Port_read v, Port_write 0x0A]\<rparr>"
    by blast
  from u1 v assms(2) have w1: "writes_after_ready (port_ops u1)"
    by (simp add: writes_after_ready_append)
  have "(0x0D :: byte) \<noteq> 0x0A" by simp
  from debug_putc_plain [OF this cr] w1 show ?thesis
    by (auto simp add: writes_after_ready_append)
qed

lemma debug_putc_plain_completes:
  assumes "c \<noteq> 0x0A" "0 < ready_count (tx_status u)"
  shows "\<exists>u'. debug_putc c u = Inr u' \<and> ready_count (tx_status u) = Suc (ready_count (tx_status u'))"
proof -
  from wait_tx_empty_ready [OF assms(2), of "port_ops u"] obtain vs' ops' where
    "wait_tx_empty (tx_status u) (port_ops u) = Inr (vs', ops')"
    "ready_count (tx_status u) = Suc (ready_count vs')" by blast
  with assms(1) show ?thesis by (simp add: debug_putc.simps)
qed

lemma debug_putc_completes:
  assumes "(if c = 0x0A then 2 else 1) \<le> ready_count (tx_status u)"
  shows "\<exists>u'. debug_putc c u = Inr u'
    \<and> ready_count (tx_status u) = ready_count (tx_status u') + (if c = 0x0A then 2 else 1)"
proof (cases "c = 0x0A")
  case False
  with assms have "0 < ready_count (tx_status u)" by simp
  from debug_putc_plain_completes [OF False this] False show ?thesis by auto
next
  case True
  with assms have two: "2 \<le> ready_count (tx_status u)" by simp
  then have "0 < ready_count (tx_status u)" by simp
  from wait_tx_empty_ready [OF this, of "port_ops u"] obtain vs' ops' where
    w: "wait_tx_empty (tx_status u) (port_ops u) = Inr (vs', ops')"
    and n: "ready_count (tx_status u) = Suc (ready_count vs')" by blast
  let ?u1 = "\<lparr>tx_status = vs', port_ops = ops' @ [Port_write 0x0A]\<rparr>"
  from two n have "0 < ready_count (tx_status ?u1)" by simp
  moreover have "(0x0D :: byte) \<noteq> 0x0A" by simp
  ultimately obtain u' where cr: "debug_putc 0x0D ?u1 = Inr u'"
    and n': "ready_count (tx_status ?u1) = Suc (ready_count (tx_status u'))"
    using debug_putc_plain_completes [of "0x0D" ?u1] by blast
  from w cr have "debug_putc 0x0A u = Inr u'"
    by (subst debug_putc.simps) simp
  with n n' True show ?thesis by simp
qed

lemma length_emitted_Cons:
  "length (emitted (c # s)) = (if c = 0x0A then 2 else 1) + length (emitted s)"
  by simp

lemma debug_puts_result:
  assumes "0 \<notin> set s" "debug_puts (s @ 0 # rest) u = Inr u'"
  shows "written (port_ops u') = written (port_ops u) @ emitted s
    \<and> (writes_after_ready (port_ops u) \<longrightarrow> writes_after_ready (port_ops u'))"
  using assms
proof (induction s arbitrary: u)
  case Nil
  then show ?case by simp
next
  case (Cons c s)
  from Cons.prems have c: "c \<noteq> 0" and s: "0 \<notin> set s" by auto
  from Cons.prems c obtain u1 where p: "debug_putc c u = Inr u1"
    and rest: "debug_puts (s @ 0 # rest) u1 = Inr u'"
    by (auto split: sum.splits)
  from Cons.IH [OF s rest] debug_putc_written [OF p] debug_putc_waits [OF p]
  show ?case by auto
qed

lemma debug_puts_completes:
  assumes "0 \<notin> set s" "length (emitted s) \<le> ready_count (tx_status u)"
  shows "\<exists>u'. debug_puts (s @ 0 # rest) u = Inr u'"
  using assms
proof (induction s arbitrary: u)
  case Nil
  then show ?case by simp
next
  case (Cons c s)
  from Cons.prems have c: "c \<noteq> 0" and s: "0 \<notin> set s" by auto
  from Cons.prems(2) have "(if c = 0x0A then 2 else 1) \<le> ready_count (tx_status u)"
    by (simp split: if_splits)
  from debug_putc_completes [OF this] obtain u1 where p: "debug_putc c u = Inr u1"
    and n: "ready_count (tx_status u) = ready_count (tx_status u1) + (if c = 0x0A then 2 else 1)"
    by blast
  from Cons.prems(2) n have "length (emitted s) \<le> ready_count (tx_status u1)"
    by (simp split: if_splits)
  from Cons.IH [OF s this] obtain u' where "debug_puts (s @ 0 # rest) u1 = Inr u'" by blast
  with p c show ?case by simp
qed

text \<open>
  Claim C9. The diagnostic channel emits bytes in input order. When \<^verbatim>\<open>debug_putc\<close>
  returns, it has written its character, followed by a carriage return when the
  character is a line feed, and every write comes right after a read that saw the
  transmit-empty flag (given that this held of the port's log before the call). When \<^verbatim>\<open>debug_puts\<close> returns on a NUL-terminated string, it
  has written the characters before the NUL in order, a carriage return after every
  line feed, each write again right after a read with the flag set. Both routines do
  return when the status signal raises the flag often enough: once per byte to write.
\<close>

theorem diagnostic_channel_order:
  "(debug_putc c u = Inr u' \<longrightarrow>
      written (port_ops u') = written (port_ops u) @ (if c = 0x0A then [0x0A, 0x0D] else [c])
      \<and> (writes_after_ready (port_ops u) \<longrightarrow> writes_after_ready (port_ops u')))
   \<and> (0 \<notin> set s \<and> debug_puts (s @ 0 # rest) u = Inr u' \<longrightarrow>
      written (port_ops u') = written (port_ops u) @ emitted s
      \<and> (writes_after_ready (port_ops u) \<longrightarrow> writes_after_ready (port_ops u')))
   \<and> ((if c = 0x0A then 2 else 1) \<le> ready_count (tx_status u) \<longrightarrow>
        (\<exists>u1. debug_putc c u = Inr u1))
   \<and> (0 \<notin> set s \<and> length (emitted s) \<le> ready_count (tx_status u) \<longrightarrow>
        (\<exists>u1. debug_puts (s @ 0 # rest) u = Inr u1))"
  using debug_putc_written [of c u u'] debug_putc_waits [of c u u']
    debug_puts_result [of s rest u u'] debug_putc_completes [of c u]
    debug_puts_completes [of s u rest]
  by blast

theorem diagnostic_channel_order_witness:
  "0 \<notin> set [0x41, 0x0A :: byte]
    \<and> debug_puts ([0x41, 0x0A] @ 0 # []) mock_uart
        = Inr \<lparr>tx_status = [0x21],
               port_ops = [Port_read 0x00, Port_read 0x20, Port_write 0x41, Port_read 0x60,
                           Port_write 0x0A, Port_read 0x20, Port_write 0x0D]\<rparr>
    \<and> written [Port_read 0x00, Port_read 0x20, Port_write 0x41, Port_read 0x60,
                Port_write 0x0A, Port_read 0x20, Port_write 0x0D]
        = emitted [0x41, 0x0A]
    \<and> writes_after_ready [Port_read 0x00, Port_read 0x20, Port_write 0x41, Port_read 0x60,
                Port_write 0x0A, Port_read 0x20, Port_write 0x0D]
    \<and> length (emitted [0x41, 0x0A]) \<le> ready_count (tx_status mock_uart)
    \<and> debug_putc 0x0A mock_uart
        = Inr \<lparr>tx_status = [0x20, 0x21],
               port_ops = [Port_read 0x00, Port_read 0x20, Port_write 0x0A, Port_read 0x60,
                           Port_write 0x0D]\<rparr>
    \<and> (if (0x0A :: byte) = 0x0A then 2 else 1) \<le> ready_count (tx_status mock_uart)"
proof -
  let ?u1 = "\<lparr>tx_status = [0x21],
      port_ops = [Port_read 0x00, Port_read 0x20, Port_write 0x41, Port_read 0x60,
                  Port_write 0x0A, Port_read 0x20, Port_write 0x0D]\<rparr>"
  let ?u2 = "\<lparr>tx_status = [0x20, 0x21],
      port_ops = [Port_read 0x00, Port_read 0x20, Port_write 0x0A, Port_read 0x60,
                  Port_write 0x0D]\<rparr>"
  have s: "0 \<notin> set [0x41, 0x0A :: byte]" by simp
  have run: "debug_puts ([0x41, 0x0A] @ 0 # []) mock_uart = Inr ?u1"
    by (simp add: mock_uart_def debug_putc.simps)
  have putc: "debug_putc 0x0A mock_uart = Inr ?u2"
    by (simp add: mock_uart_def debug_putc.simps)
  have enough: "length (emitted [0x41, 0x0A]) \<le> ready_count (tx_status mock_uart)"
    "(if (0x0A :: byte) = 0x0A then 2 else 1) \<le> ready_count (tx_status mock_uart)"
    by (simp_all add: mock_uart_def ready_count_def)
  have start: "writes_after_ready (port_ops mock_uart)" "written (port_ops mock_uart) = []"
    by (simp_all add: mock_uart_def)
  from diagnostic_channel_order [of "0x0A" mock_uart ?u1 "[0x41, 0x0A]" "[]"] s run start
  have "written (port_ops ?u1) = emitted [0x41, 0x0A] \<and> writes_after_ready (port_ops ?u1)"
    by simp
  moreover
  from diagnostic_channel_order [of "0x0A" mock_uart ?u2 "[0x41, 0x0A]" "[]"] putc start
  have "written (port_ops ?u2) = [0x0A, 0x0D]" by simp
  ultimately show ?thesis using s run putc enough by simp
qed

subsection \<open>Static constructors and destructors\<close>

text \<open>Both loops, started at any index: the non-null entries from there on are applied
  to the state in array order, and their indices are appended to the call record.\<close>

declare init_loop.simps [simp del] fini_loop.simps [simp del]

lemma init_loop_run:
  "init_loop arr i (w, calls) =
     (foldl (\<lambda>w f. f w) w (routines (drop i arr)),
      calls @ filter (\<lambda>j. arr ! j \<noteq> None) [i..<length arr])"
proof (induction arr i "(w, calls)" arbitrary: w calls rule: init_loop.induct)
  case (1 arr ctor w calls)
  show ?case
  proof (cases "ctor < length arr")
    case False
    then show ?thesis by (simp add: init_loop.simps)
  next
    case True
    then have d: "drop ctor arr = arr ! ctor # drop (Suc ctor) arr"
      by (simp add: Cons_nth_drop_Suc)
    from True have u: "[ctor..<length arr] = ctor # [Suc ctor..<length arr]"
      by (simp add: upt_conv_Cons)
    show ?thesis
    proof (cases "arr ! ctor")
      case None
      with True 1 show ?thesis
        by (subst init_loop.simps) (simp add: d u)
    next
      case (Some f)
      with True 1 show ?thesis
        by (subst init_loop.simps) (simp add: d u)
    qed
  qed
qed

lemma fini_loop_run:
  "fini_loop arr i (w, calls) =
     (foldl (\<lambda>w f. f w) w (routines (drop i arr)),
      calls @ filter (\<lambda>j. arr ! j \<noteq> None) [i..<length arr])"
proof (induction arr i "(w, calls)" arbitrary: w calls rule: fini_loop.induct)
  case (1 arr dtor w calls)
  show ?case
  proof (cases "dtor < length arr")
    case False
    then show ?thesis by (simp add: fini_loop.simps)
  next
    case True
    then have d: "drop dtor arr = arr ! dtor # drop (Suc dtor) arr"
      by (simp add: Cons_nth_drop_Suc)
    from True have u: "[dtor..<length arr] = dtor # [Suc dtor..<length arr]"
      by (simp add: upt_conv_Cons)
    show ?thesis
    proof (cases "arr ! dtor")
      case None
      with True 1 show ?thesis
        by (subst fini_loop.simps) (simp add: d u)
    next
      case (Some f)
      with True 1 show ?thesis
        by (subst fini_loop.simps) (simp add: d u)
    qed
  qed
qed

lemma ascending_filter_upt: "sorted_wrt (<) (filter P [i..<n])"
  by (simp add: sorted_wrt_filter)

text \<open>
  Claim C10. \<^verbatim>\<open>_init\<close> calls the entries of the constructor array in ascending
  array order: the indices it calls are exactly the indices of the non-null entries,
  strictly ascending (so each once, null entries skipped), and the final state is the
  non-null routines applied in array order. \<^verbatim>\<open>_fini\<close> does the same over the
  destructor array.
\<close>

theorem static_runners_in_order:
  "snd (cxx_init arr w) = filter (\<lambda>i. arr ! i \<noteq> None) [0..<length arr]
   \<and> sorted_wrt (<) (snd (cxx_init arr w))
   \<and> set (snd (cxx_init arr w)) = {i. i < length arr \<and> arr ! i \<noteq> None}
   \<and> fst (cxx_init arr w) = foldl (\<lambda>w f. f w) w (routines arr)
   \<and> snd (cxx_fini arr w) = filter (\<lambda>i. arr ! i \<noteq> None) [0..<length arr]
   \<and> sorted_wrt (<) (snd (cxx_fini arr w))
   \<and> set (snd (cxx_fini arr w)) = {i. i < length arr \<and> arr ! i \<noteq> None}
   \<and> fst (cxx_fini arr w) = foldl (\<lambda>w f. f w) w (routines arr)"
  by (auto simp add: cxx_init_def cxx_fini_def init_loop_run fini_loop_run ascending_filter_upt)

end
